theory Spec2Isabelle
  imports Main "HOL-Library.Multiset"
begin

section \<open>Data model\<close>

text \<open>
  The views of \<^verbatim>\<open>publications/views.py\<close> and the serializers of
  \<^verbatim>\<open>publications/serializers.py\<close> work on five tables: users, publications,
  the per-(publication, user) \<^verbatim>\<open>Views\<close> ledger, notifications and categories.
  A row is a record, a table is the list of its rows in storage order, and the
  database is a record of tables that every operation takes and returns.
  Primary keys and foreign keys are natural numbers. Text is a \<open>string\<close>,
  each \<open>char\<close> standing for the code point of its number (the code points
  below 256); the status and the role stay strings, as the code compares
  them with string literals.
\<close>

record user =
  uid :: nat
  role :: string
  full_name :: string

record publication =
  pid :: nat
  title :: string
  abstract :: string
  content :: string
  file_field :: "string option"
  video_file :: "string option"
  author :: nat
  editor :: "nat option"
  categories :: "string list"
  keywords_field :: string
  views :: int
  status :: string
  rejection_note :: "string option"

record views_row =
  vid :: nat
  v_publication :: nat
  v_user :: nat
  user_liked :: bool
  user_disliked :: bool

record notification =
  nid :: nat
  n_user :: nat
  message :: string
  is_read :: bool
  created_at :: nat
  related_publication :: nat

record db =
  users :: "user list"
  publications :: "publication list"
  views_tbl :: "views_row list"
  notifications :: "notification list"
  category_tbl :: "string list"

text \<open>
  Every raise and every error response of the two source files is a
  constructor: \<open>Http404\<close> for \<^verbatim>\<open>get_object_or_404\<close> and a failed
  primary-key lookup, \<open>BadRequest\<close> for a \<^verbatim>\<open>Response\<close> with
  \<^verbatim>\<open>HTTP_400_BAD_REQUEST\<close>, \<open>ValueError\<close> for the first \<^verbatim>\<open>raise\<close> of
  \<^verbatim>\<open>perform_update\<close>, \<open>AttributeError\<close> for \<^verbatim>\<open>None.strip()\<close> and for
  the name \<^verbatim>\<open>permissions.PermissionDenied\<close> of its last \<^verbatim>\<open>raise\<close>, which
  the module \<^verbatim>\<open>rest_framework.permissions\<close> does not have,
  \<open>PermissionDenied\<close> for an object permission that refuses, and
  \<open>NotAuthenticated\<close> for a request that the \<^verbatim>\<open>IsAuthenticated\<close>
  permission class turns away.
\<close>

datatype error =
    Http404
  | BadRequest string
  | ValueError string
  | PermissionDenied string
  | AttributeError
  | NotAuthenticated

text \<open>
  What \<^verbatim>\<open>request.data.get(key)\<close> can see for a textual key: the key is
  missing, it holds JSON \<^verbatim>\<open>null\<close>, or it holds a string.
\<close>

datatype jval = Absent | Null | Str string

text \<open>A new row gets a primary key above every key in the table.\<close>

definition next_id :: "nat list \<Rightarrow> nat" where
  "next_id ids = Suc (fold max ids 0)"

definition lookup_pub :: "nat \<Rightarrow> db \<Rightarrow> publication option" where
  "lookup_pub pk d = find (\<lambda>p. pid p = pk) (publications d)"

section \<open>Strings\<close>

text \<open>
  \<^verbatim>\<open>str.strip()\<close> removes leading and trailing whitespace. Below 256 the
  code points Python counts as whitespace are the tab, the line feed, the
  vertical tab, the form feed, the carriage return, the four separators
  \<^verbatim>\<open>0x1C\<close> to \<^verbatim>\<open>0x1F\<close>, the space, the next-line control
  \<^verbatim>\<open>0x85\<close> and the no-break space \<^verbatim>\<open>0xA0\<close>.
\<close>

definition is_space :: "char \<Rightarrow> bool" where
  "is_space c = (c \<in> set [CHR 0x09, CHR 0x0A, CHR 0x0B, CHR 0x0C, CHR 0x0D,
                            CHR 0x1C, CHR 0x1D, CHR 0x1E, CHR 0x1F, CHR 0x20,
                            CHR 0x85, CHR 0xA0])"

definition strip :: "string \<Rightarrow> string" where
  "strip s = rev (dropWhile is_space (rev (dropWhile is_space s)))"

section \<open>The reaction ledger: \<^verbatim>\<open>ViewsUpdateView.patch\<close>\<close>

record react_response =
  r_publication_id :: nat
  r_user :: nat
  r_action :: string
  r_total_likes :: nat
  r_total_dislikes :: nat

text \<open>
  Modelled from the spec: \<^verbatim>\<open>Publication.total_likes\<close> and
  \<^verbatim>\<open>Publication.total_dislikes\<close> are methods of \<^verbatim>\<open>models.py\<close>, which is
  not among the source files; the spec describes them as the counts of the
  publication's ledger records with the flag set, computed on demand.
\<close>

definition total_likes :: "nat \<Rightarrow> db \<Rightarrow> nat" where
  "total_likes pk d =
     length (filter (\<lambda>r. v_publication r = pk \<and> user_liked r) (views_tbl d))"

definition total_dislikes :: "nat \<Rightarrow> db \<Rightarrow> nat" where
  "total_dislikes pk d =
     length (filter (\<lambda>r. v_publication r = pk \<and> user_disliked r) (views_tbl d))"

text \<open>
  \<^verbatim>\<open>Views.objects.get_or_create(publication=..., user=..., defaults={"user_liked":
  False, "user_disliked": False})\<close>: the row of the pair when there is one,
  else a new row with both flags false, appended to the table. The result is
  the row, the \<^verbatim>\<open>created\<close> flag and the database.
\<close>

definition get_or_create :: "nat \<Rightarrow> nat \<Rightarrow> db \<Rightarrow> views_row \<times> bool \<times> db" where
  "get_or_create pk u d =
     (case find (\<lambda>r. v_publication r = pk \<and> v_user r = u) (views_tbl d) of
        Some r \<Rightarrow> (r, False, d)
      | None \<Rightarrow>
          (let r = \<lparr>vid = next_id (map vid (views_tbl d)), v_publication = pk, v_user = u,
                    user_liked = False, user_disliked = False\<rparr>
           in (r, True, d\<lparr>views_tbl := views_tbl d @ [r]\<rparr>)))"

text \<open>
  \<^verbatim>\<open>view_obj.save(update_fields=["user_liked", "user_disliked"])\<close> writes the
  two columns of the row with the object's primary key, the row that
  \<^verbatim>\<open>get_or_create\<close> has just read or made.
\<close>

definition save_flags :: "views_row \<Rightarrow> db \<Rightarrow> db" where
  "save_flags obj d =
     d\<lparr>views_tbl :=
         map (\<lambda>r. if vid r = vid obj
                   then r\<lparr>user_liked := user_liked obj, user_disliked := user_disliked obj\<rparr>
                   else r) (views_tbl d)\<rparr>"

definition react_ok :: "nat \<Rightarrow> user \<Rightarrow> string \<Rightarrow> db \<Rightarrow> (error + react_response) \<times> db" where
  "react_ok pk u action d =
     (Inr \<lparr>r_publication_id = pk, r_user = uid u, r_action = action,
            r_total_likes = total_likes pk d, r_total_dislikes = total_dislikes pk d\<rparr>, d)"

text \<open>
  \<^verbatim>\<open>patch\<close>: the publication is looked up by \<^verbatim>\<open>pk\<close>, the action is
  \<^verbatim>\<open>request.data.get("action")\<close> (\<open>None\<close> when the key is missing), and the
  result pairs the response with the database after the call.
\<close>

definition ViewsUpdateView_patch :: "user \<Rightarrow> nat \<Rightarrow> string option \<Rightarrow> db \<Rightarrow> (error + react_response) \<times> db" where
  "ViewsUpdateView_patch u pk action d =
     (case lookup_pub pk d of
        None \<Rightarrow> (Inl Http404, d)
      | Some publication \<Rightarrow>
          if action \<noteq> Some ''like'' \<and> action \<noteq> Some ''dislike''
          then (Inl (BadRequest ''Invalid action. Use 'like' or 'dislike'.''), d)
          else
            (case get_or_create (pid publication) (uid u) d of
               (view_obj, created, d1) \<Rightarrow>
                 if action = Some ''like'' then
                   (if user_liked view_obj
                    then (Inl (BadRequest ''You have already liked this publication.''), d1)
                    else react_ok (pid publication) u ''like''
                           (save_flags (view_obj\<lparr>user_liked := True, user_disliked := False\<rparr>) d1))
                 else
                   (if user_disliked view_obj
                    then (Inl (BadRequest ''You have already disliked this publication.''), d1)
                    else react_ok (pid publication) u ''dislike''
                           (save_flags (view_obj\<lparr>user_disliked := True, user_liked := False\<rparr>) d1))))"

text \<open>
  The ledger invariant, the ledger row of a pair, and a run of reactions: each
  request of the run is the caller, the publication key and the action.
\<close>

definition flags_exclusive :: "db \<Rightarrow> bool" where
  "flags_exclusive d = list_all (\<lambda>r. \<not> (user_liked r \<and> user_disliked r)) (views_tbl d)"

definition ledger_row :: "nat \<Rightarrow> nat \<Rightarrow> db \<Rightarrow> views_row option" where
  "ledger_row pk u d = find (\<lambda>r. v_publication r = pk \<and> v_user r = u) (views_tbl d)"

fun reacts :: "(user \<times> nat \<times> string option) list \<Rightarrow> db \<Rightarrow> db" where
  "reacts [] d = d"
| "reacts ((u, pk, action) # rs) d = reacts rs (snd (ViewsUpdateView_patch u pk action d))"

section \<open>Access policy and view counting: \<^verbatim>\<open>PublicationDetailView.get_object\<close>\<close>

definition has_object_permission :: "user \<Rightarrow> publication \<Rightarrow> bool" where
  "has_object_permission u obj =
     (if role u = ''editor'' then True
      else if author obj = uid u then True
      else status obj = ''approved'')"

text \<open>\<^verbatim>\<open>publication.save(update_fields=["views"])\<close> writes one column of the
  row, which \<^verbatim>\<open>get_object\<close> has just read.\<close>

definition save_views :: "publication \<Rightarrow> db \<Rightarrow> db" where
  "save_views obj d =
     d\<lparr>publications :=
         map (\<lambda>r. if pid r = pid obj then r\<lparr>views := views obj\<rparr> else r) (publications d)\<rparr>"

text \<open>
  \<^verbatim>\<open>get_object\<close>. The call of \<^verbatim>\<open>super().get_object()\<close> is the framework's
  lookup by primary key (404 when there is no such row) followed by the object
  permissions of \<^verbatim>\<open>permission_classes\<close>, here \<^verbatim>\<open>IsAuthorOrEditor\<close>. Then the
  counter is incremented when the ledger has no row for the pair.
\<close>

definition PublicationDetailView_get_object ::
  "user \<Rightarrow> nat \<Rightarrow> db \<Rightarrow> (error + publication) \<times> db" where
  "PublicationDetailView_get_object u pk d =
     (case lookup_pub pk d of
        None \<Rightarrow> (Inl Http404, d)
      | Some publication \<Rightarrow>
          if \<not> has_object_permission u publication
          then (Inl (PermissionDenied ''You do not have permission to perform this action.''), d)
          else if \<not> list_ex (\<lambda>r. v_publication r = pid publication \<and> v_user r = uid u) (views_tbl d)
          then (let publication' = publication\<lparr>views := views publication + 1\<rparr>
                in (Inr publication', save_views publication' d))
          else (Inr publication, d))"

text \<open>\<open>n\<close> retrievals of the same publication by the same user, one after the other.\<close>

fun record_views :: "nat \<Rightarrow> user \<Rightarrow> nat \<Rightarrow> db \<Rightarrow> db" where
  "record_views 0 u pk d = d"
| "record_views (Suc n) u pk d = record_views n u pk (snd (PublicationDetailView_get_object u pk d))"

section \<open>\<^verbatim>\<open>PublicationSerializer\<close>: create and update\<close>

text \<open>
  The serializer's \<^verbatim>\<open>validated_data\<close>, a dictionary over the writable
  fields: a field is \<open>None\<close> when its key is missing. The file fields and the
  rejection note admit \<^verbatim>\<open>null\<close>, hence the nested option.
\<close>

record pub_data =
  d_title :: "string option"
  d_abstract :: "string option"
  d_content :: "string option"
  d_file :: "string option option"
  d_video_file :: "string option option"
  d_categories :: "string list option"
  d_keywords :: "string option"
  d_status :: "string option"
  d_rejection_note :: "string option option"

text \<open>
  The keyword arguments of \<^verbatim>\<open>serializer.save(...)\<close>: the source passes
  \<^verbatim>\<open>author\<close>, or \<^verbatim>\<open>editor\<close> and \<^verbatim>\<open>status\<close>, or none. The framework hands
  \<^verbatim>\<open>{**validated_data, **kwargs}\<close> to \<^verbatim>\<open>create\<close> and \<^verbatim>\<open>update\<close>, so a
  keyword argument overrides the validated field of the same name.
\<close>

record save_kwargs =
  k_author :: "nat option"
  k_editor :: "nat option"
  k_status :: "string option"

definition no_kwargs :: save_kwargs where
  "no_kwargs = \<lparr>k_author = None, k_editor = None, k_status = None\<rparr>"

definition get_default :: "'a option \<Rightarrow> 'a \<Rightarrow> 'a" where
  "get_default v dflt = (case v of Some x \<Rightarrow> x | None \<Rightarrow> dflt)"

definition merged_status :: "pub_data \<Rightarrow> save_kwargs \<Rightarrow> string option" where
  "merged_status vd kw = (case k_status kw of Some s \<Rightarrow> Some s | None \<Rightarrow> d_status vd)"

text \<open>The loop \<^verbatim>\<open>for attr, value in validated_data.items(): setattr(instance, attr, value)\<close>,
  run after \<^verbatim>\<open>categories\<close> has been popped.\<close>

definition set_attrs :: "pub_data \<Rightarrow> save_kwargs \<Rightarrow> publication \<Rightarrow> publication" where
  "set_attrs vd kw instance =
     instance\<lparr>title := get_default (d_title vd) (title instance),
              abstract := get_default (d_abstract vd) (abstract instance),
              content := get_default (d_content vd) (content instance),
              file_field := get_default (d_file vd) (file_field instance),
              video_file := get_default (d_video_file vd) (video_file instance),
              keywords_field := get_default (d_keywords vd) (keywords_field instance),
              status := get_default (merged_status vd kw) (status instance),
              rejection_note := get_default (d_rejection_note vd) (rejection_note instance),
              author := get_default (k_author kw) (author instance),
              editor := (case k_editor kw of Some e \<Rightarrow> Some e | None \<Rightarrow> editor instance)\<rparr>"

text \<open>\<^verbatim>\<open>instance.save()\<close> writes every column of the row with the instance's key,
  and inserts the instance as a new row when no row has that key; the
  many-to-many categories are written by \<^verbatim>\<open>clear\<close> and \<^verbatim>\<open>add\<close>, so a
  new row has none.\<close>

definition save_publication :: "publication \<Rightarrow> db \<Rightarrow> db" where
  "save_publication obj d =
     (if list_ex (\<lambda>r. pid r = pid obj) (publications d)
      then d\<lparr>publications :=
               map (\<lambda>r. if pid r = pid obj then obj\<lparr>categories := categories r\<rparr> else r)
                   (publications d)\<rparr>
      else d\<lparr>publications := publications d @ [obj\<lparr>categories := []\<rparr>]\<rparr>)"

definition save_categories :: "publication \<Rightarrow> db \<Rightarrow> db" where
  "save_categories obj d =
     d\<lparr>publications :=
         map (\<lambda>r. if pid r = pid obj then r\<lparr>categories := categories obj\<rparr> else r)
             (publications d)\<rparr>"

text \<open>\<^verbatim>\<open>Category.objects.get_or_create(name=cat)\<close> for each name of the list.\<close>

definition ensure_categories :: "string list \<Rightarrow> db \<Rightarrow> db" where
  "ensure_categories cats d =
     d\<lparr>category_tbl :=
         fold (\<lambda>c tbl. if c \<in> set tbl then tbl else tbl @ [c]) cats (category_tbl d)\<rparr>"

definition PublicationSerializer_update ::
  "publication \<Rightarrow> pub_data \<Rightarrow> save_kwargs \<Rightarrow> db \<Rightarrow> publication \<times> db" where
  "PublicationSerializer_update instance vd kw d =
     (let instance1 = set_attrs vd kw instance;
          d1 = save_publication instance1 d
      in case d_categories vd of
           None \<Rightarrow> (instance1, d1)
         | Some cats \<Rightarrow>
             (let instance2 = instance1\<lparr>categories := remdups cats\<rparr>
              in (instance2, save_categories instance2 (ensure_categories cats d1))))"

text \<open>
  Modelled from the spec: the column defaults of \<^verbatim>\<open>models.py\<close>, which is not
  among the source files. A new publication is pending, has no editor and no
  rejection note, and its view counter starts at zero; text left out is empty.
\<close>

definition new_publication :: "nat \<Rightarrow> nat \<Rightarrow> publication" where
  "new_publication pk a =
     \<lparr>pid = pk, title = [], abstract = [], content = [], file_field = None,
      video_file = None, author = a, editor = None, categories = [],
      keywords_field = [], views = 0, status = ''pending'', rejection_note = None\<rparr>"

text \<open>
  \<^verbatim>\<open>create\<close>: \<^verbatim>\<open>Publication.objects.create(**validated_data)\<close>, then the
  categories. A row without an author violates the foreign key; the insert
  then fails and the result is \<open>None\<close>.
\<close>

definition PublicationSerializer_create ::
  "pub_data \<Rightarrow> save_kwargs \<Rightarrow> db \<Rightarrow> (publication \<times> db) option" where
  "PublicationSerializer_create vd kw d =
     (case k_author kw of
        None \<Rightarrow> None
      | Some a \<Rightarrow>
          (let cats = get_default (d_categories vd) [];
               publication =
                 (set_attrs vd kw (new_publication (next_id (map pid (publications d))) a))
                   \<lparr>categories := remdups cats\<rparr>
           in Some (publication,
                    ensure_categories cats (d\<lparr>publications := publications d @ [publication]\<rparr>))))"

text \<open>\<^verbatim>\<open>perform_create\<close>: \<^verbatim>\<open>serializer.save(author=self.request.user)\<close>.\<close>

definition perform_create :: "user \<Rightarrow> pub_data \<Rightarrow> db \<Rightarrow> (publication \<times> db) option" where
  "perform_create u vd d =
     PublicationSerializer_create vd (no_kwargs\<lparr>k_author := Some (uid u)\<rparr>) d"

section \<open>The lifecycle engine: \<^verbatim>\<open>PublicationDetailView.perform_update\<close>\<close>

text \<open>
  The clock is part of the environment: \<open>now e k\<close> is the \<open>k\<close>-th reading of
  the clock during the request, and \<open>strftime e\<close> formats a reading the way
  \<^verbatim>\<open>strftime('%I:%M %p WAT, %B %d, %Y')\<close> does.
\<close>

record env =
  now :: "nat \<Rightarrow> nat"
  strftime :: "nat \<Rightarrow> string"

text \<open>The two keys of \<^verbatim>\<open>request.data\<close> that \<^verbatim>\<open>perform_update\<close> reads.\<close>

record request_data =
  data_status :: jval
  data_rejection_note :: jval

text \<open>The two \<^verbatim>\<open>Response\<close> bodies: with and without the \<^verbatim>\<open>rejection_note\<close> key.\<close>

datatype update_response =
    StatusResponse string "string option"
  | MessageResponse string

text \<open>Python's truth value of \<^verbatim>\<open>data.get('status')\<close>, and its text when it is a string.\<close>

fun truthy :: "jval \<Rightarrow> bool" where
  "truthy Absent = False"
| "truthy Null = False"
| "truthy (Str s) = (s \<noteq> [])"

fun text_of :: "jval \<Rightarrow> string" where
  "text_of (Str s) = s"
| "text_of Absent = []"
| "text_of Null = []"

text \<open>\<^verbatim>\<open>data.get('rejection_note', '').strip() or None\<close>; a \<^verbatim>\<open>null\<close> has no \<^verbatim>\<open>strip\<close>.\<close>

definition normalise_note :: "jval \<Rightarrow> error + string option" where
  "normalise_note v =
     (case v of
        Absent \<Rightarrow> Inr None
      | Null \<Rightarrow> Inl AttributeError
      | Str s \<Rightarrow> Inr (if strip s = [] then None else Some (strip s)))"

definition quoted :: "string \<Rightarrow> string" where
  "quoted s = CHR 0x27 # s @ [CHR 0x27]"

definition author_message :: "string \<Rightarrow> string \<Rightarrow> string \<Rightarrow> string" where
  "author_message ttl status_value stamp =
     ''Your publication '' @ quoted ttl @ '' status changed to '' @ quoted status_value
       @ '' at '' @ stamp @ ''.''"

definition editor_message :: "string \<Rightarrow> string \<Rightarrow> string \<Rightarrow> string \<Rightarrow> string" where
  "editor_message ttl status_value name stamp =
     ''Publication '' @ quoted ttl @ '' status updated to '' @ quoted status_value
       @ '' by '' @ name @ '' at '' @ stamp @ ''.''"

text \<open>
  Modelled from the spec: the defaults of the notification model in the absent
  \<^verbatim>\<open>models.py\<close>, unread and stamped with the time of creation. With them,
  \<^verbatim>\<open>Notification.objects.create(user=..., message=..., related_publication=...)\<close>
  is a new row at the end of the table; the clock reading is the last but one
  argument.
\<close>

definition Notification_create :: "nat \<Rightarrow> string \<Rightarrow> nat \<Rightarrow> nat \<Rightarrow> db \<Rightarrow> db" where
  "Notification_create recipient msg rp stamp d =
     d\<lparr>notifications := notifications d @
         [\<lparr>nid = next_id (map nid (notifications d)), n_user = recipient, message = msg,
           is_read = False, created_at = stamp, related_publication = rp\<rparr>]\<rparr>"

text \<open>The loop over the other editors; each round reads the clock twice, from reading \<open>k\<close> on.\<close>

fun notify_editors :: "env \<Rightarrow> nat \<Rightarrow> user \<Rightarrow> publication \<Rightarrow> string \<Rightarrow> user list \<Rightarrow> db \<Rightarrow> db" where
  "notify_editors e k u instance status_value [] d = d"
| "notify_editors e k u instance status_value (x # xs) d =
     notify_editors e (k + 2) u instance status_value xs
       (Notification_create (uid x)
          (editor_message (title instance) status_value (full_name u) (strftime e (now e k)))
          (pid instance) (now e (k + 1)) d)"

text \<open>\<^verbatim>\<open>instance.save(update_fields=['rejection_note'])\<close>, on the row that
  \<^verbatim>\<open>serializer.save\<close> has just written.\<close>

definition save_rejection_note :: "publication \<Rightarrow> db \<Rightarrow> db" where
  "save_rejection_note obj d =
     d\<lparr>publications :=
         map (\<lambda>r. if pid r = pid obj then r\<lparr>rejection_note := rejection_note obj\<rparr> else r)
             (publications d)\<rparr>"

text \<open>The branch \<^verbatim>\<open>if user.role == 'editor' and status_value\<close>, lines 91 to 128.\<close>

definition change_status ::
  "env \<Rightarrow> user \<Rightarrow> string \<Rightarrow> string option \<Rightarrow> pub_data \<Rightarrow> publication \<Rightarrow> db
     \<Rightarrow> (error + update_response) \<times> db" where
  "change_status e u status_value note vd instance0 d =
     (case PublicationSerializer_update instance0 vd
             (no_kwargs\<lparr>k_editor := Some (uid u), k_status := Some status_value\<rparr>) d of
        (instance1, d1) \<Rightarrow>
          (let instance = instance1\<lparr>rejection_note :=
                             (if status_value = ''rejected'' then note else None)\<rparr>;
               d2 = save_rejection_note instance d1;
               d3 = Notification_create (author instance)
                      (author_message (title instance) status_value (strftime e (now e 0)))
                      (pid instance) (now e 1) d2;
               editors = filter (\<lambda>x. role x = ''editor'' \<and> uid x \<noteq> uid u) (users d3);
               d4 = notify_editors e 2 u instance status_value editors d3
           in (Inr (StatusResponse ''Publication status updated successfully.'' note), d4)))"

text \<open>
  \<^verbatim>\<open>perform_update\<close>: the caller, the request data, the serializer's validated
  data and its instance (the object \<^verbatim>\<open>get_object\<close> returned). The result pairs
  the returned \<^verbatim>\<open>Response\<close> or the exception raised with the database. The
  last branch is \<^verbatim>\<open>raise permissions.PermissionDenied(...)\<close>, where
  \<^verbatim>\<open>permissions\<close> is \<^verbatim>\<open>rest_framework.permissions\<close>: that module has no
  such name, and looking it up raises \<^verbatim>\<open>AttributeError\<close>.
\<close>

definition PublicationDetailView_perform_update ::
  "env \<Rightarrow> user \<Rightarrow> request_data \<Rightarrow> pub_data \<Rightarrow> publication \<Rightarrow> db
     \<Rightarrow> (error + update_response) \<times> db" where
  "PublicationDetailView_perform_update e u data vd instance d =
     (case normalise_note (data_rejection_note data) of
        Inl err \<Rightarrow> (Inl err, d)
      | Inr note \<Rightarrow>
          if status instance = ''rejected'' \<and> role u = ''editor''
          then (Inl (ValueError ''Rejected publications cannot be changed or updated.''), d)
          else if role u = ''editor'' \<and> truthy (data_status data)
          then change_status e u (text_of (data_status data)) note vd instance d
          else if uid u = author instance
          then (case PublicationSerializer_update instance vd no_kwargs d of
                  (instance1, d1) \<Rightarrow> (Inr (MessageResponse ''Publication updated successfully.''), d1))
          else (Inl AttributeError, d))"

section \<open>The update handler of \<^verbatim>\<open>PublicationDetailView\<close>\<close>






section \<open>Listing publications: \<^verbatim>\<open>PublicationListCreateView.get_queryset\<close>\<close>

text \<open>\<^verbatim>\<open>str.split(',')\<close>: the pieces between the commas, empty pieces included.\<close>

fun split_comma :: "string \<Rightarrow> string list" where
  "split_comma [] = [[]]"
| "split_comma (c # cs) =
     (if c = CHR '','' then [] # split_comma cs
      else (case split_comma cs of
              [] \<Rightarrow> [[c]]
            | w # ws \<Rightarrow> (c # w) # ws))"

text \<open>
  \<^verbatim>\<open>icontains\<close> is the database's case-insensitive substring test; it is
  modelled on ASCII letters.
\<close>

definition lower_char :: "char \<Rightarrow> char" where
  "lower_char c =
     (let n = (of_char c :: nat) in if 65 \<le> n \<and> n \<le> 90 then char_of (n + 32) else c)"

fun starts_with :: "string \<Rightarrow> string \<Rightarrow> bool" where
  "starts_with s [] = True"
| "starts_with [] (c # cs) = False"
| "starts_with (x # xs) (c # cs) = (x = c \<and> starts_with xs cs)"

fun contains :: "string \<Rightarrow> string \<Rightarrow> bool" where
  "contains [] sub = (sub = [])"
| "contains (x # xs) sub = (starts_with (x # xs) sub \<or> contains xs sub)"

definition icontains :: "string \<Rightarrow> string \<Rightarrow> bool" where
  "icontains s sub = contains (map lower_char s) (map lower_char sub)"

text \<open>The disjunction built by the loop over \<^verbatim>\<open>keyword_list\<close>; the empty
  \<^verbatim>\<open>Q()\<close> filters nothing out.\<close>

definition keyword_queries :: "string list \<Rightarrow> publication \<Rightarrow> bool" where
  "keyword_queries keyword_list p =
     (keyword_list = [] \<or>
      list_ex (\<lambda>keyword. icontains (keywords_field p) keyword \<or> icontains (title p) keyword
                          \<or> icontains (abstract p) keyword) keyword_list)"

text \<open>Lines 42 to 53: the filter by the query parameter \<^verbatim>\<open>keywords\<close>.\<close>

definition keyword_filter :: "string option \<Rightarrow> publication list \<Rightarrow> publication list" where
  "keyword_filter keywords queryset =
     (case keywords of
        None \<Rightarrow> queryset
      | Some ks \<Rightarrow>
          if ks = [] then queryset
          else filter (keyword_queries (map strip (filter (\<lambda>k. strip k \<noteq> []) (split_comma ks))))
                 queryset)"

definition PublicationListCreateView_get_queryset ::
  "user \<Rightarrow> string option \<Rightarrow> db \<Rightarrow> publication list" where
  "PublicationListCreateView_get_queryset u keywords d =
     (let queryset = keyword_filter keywords (publications d)
      in if role u = ''editor'' then queryset
         else filter (\<lambda>p. author p = uid u \<or> status p = ''approved'') queryset)"

section \<open>The notification outbox\<close>

text \<open>
  The caller of a request: Django's \<^verbatim>\<open>AnonymousUser\<close> or a row of the user
  table. \<^verbatim>\<open>is_anonymous\<close> holds of the first only, \<^verbatim>\<open>is_authenticated\<close> of
  the second only.
\<close>

datatype caller = AnonymousUser | Authenticated user

fun is_anonymous :: "caller \<Rightarrow> bool" where
  "is_anonymous AnonymousUser = True"
| "is_anonymous (Authenticated u) = False"

text \<open>\<^verbatim>\<open>order_by('-created_at')\<close>: insertion into a list kept newest first.\<close>

fun insert_newest :: "notification \<Rightarrow> notification list \<Rightarrow> notification list" where
  "insert_newest n [] = [n]"
| "insert_newest n (m # ms) =
     (if created_at m \<le> created_at n then n # m # ms else m # insert_newest n ms)"

definition order_by_created_desc :: "notification list \<Rightarrow> notification list" where
  "order_by_created_desc ns = foldr insert_newest ns []"

definition NotificationUnreadView_get_queryset :: "caller \<Rightarrow> db \<Rightarrow> notification list" where
  "NotificationUnreadView_get_queryset c d =
     (case c of
        AnonymousUser \<Rightarrow> []
      | Authenticated u \<Rightarrow>
          order_by_created_desc
            (filter (\<lambda>n. n_user n = uid u \<and> is_read n = False) (notifications d)))"

text \<open>
  The view as declared: \<^verbatim>\<open>permission_classes = [permissions.IsAuthenticated]\<close>
  is checked before the list handler runs, and a caller who is not
  authenticated is turned away; otherwise the handler lists the queryset.
\<close>

definition IsAuthenticated :: "caller \<Rightarrow> bool" where
  "IsAuthenticated c = (\<not> is_anonymous c)"

definition NotificationUnreadView_list :: "caller \<Rightarrow> db \<Rightarrow> error + notification list" where
  "NotificationUnreadView_list c d =
     (if \<not> IsAuthenticated c then Inl NotAuthenticated
      else Inr (NotificationUnreadView_get_queryset c d))"

text \<open>\<^verbatim>\<open>NotificationListView.get_queryset\<close> and \<^verbatim>\<open>NotificationMarkReadView.get_queryset\<close>.\<close>

definition NotificationListView_get_queryset :: "user \<Rightarrow> db \<Rightarrow> notification list" where
  "NotificationListView_get_queryset u d = filter (\<lambda>n. n_user n = uid u) (notifications d)"

text \<open>
  \<^verbatim>\<open>NotificationSerializer\<close>: the validated data can hold the two writable
  fields, \<^verbatim>\<open>message\<close> and \<^verbatim>\<open>is_read\<close>; \<^verbatim>\<open>user\<close>, \<^verbatim>\<open>created_at\<close> and
  \<^verbatim>\<open>related_publication\<close> are declared read-only and never reach it.
\<close>

record notification_data =
  nd_message :: "string option"
  nd_is_read :: "bool option"

text \<open>\<^verbatim>\<open>instance.save()\<close> on a notification: the row with the instance's key
  is rewritten, and the instance is inserted when no row has that key.\<close>

definition save_notification :: "notification \<Rightarrow> db \<Rightarrow> db" where
  "save_notification obj d =
     (if list_ex (\<lambda>r. nid r = nid obj) (notifications d)
      then d\<lparr>notifications := map (\<lambda>r. if nid r = nid obj then obj else r) (notifications d)\<rparr>
      else d\<lparr>notifications := notifications d @ [obj]\<rparr>)"

definition NotificationSerializer_update ::
  "notification \<Rightarrow> notification_data \<Rightarrow> db \<Rightarrow> notification \<times> db" where
  "NotificationSerializer_update instance validated_data d =
     (let instance' = instance\<lparr>is_read := get_default (nd_is_read validated_data) (is_read instance)\<rparr>
      in (instance', save_notification instance' d))"

text \<open>
  \<^verbatim>\<open>NotificationMarkReadView\<close>: the framework looks the key up in
  \<^verbatim>\<open>get_queryset()\<close>, the caller's own notifications, answers 404 when it is
  not there, and saves the serializer, which calls \<^verbatim>\<open>update\<close>.
\<close>

definition NotificationMarkReadView_update ::
  "user \<Rightarrow> nat \<Rightarrow> notification_data \<Rightarrow> db \<Rightarrow> (error + notification) \<times> db" where
  "NotificationMarkReadView_update u pk validated_data d =
     (case find (\<lambda>n. nid n = pk) (NotificationListView_get_queryset u d) of
        None \<Rightarrow> (Inl Http404, d)
      | Some instance \<Rightarrow>
          (case NotificationSerializer_update instance validated_data d of
             (instance', d1) \<Rightarrow> (Inr instance', d1)))"

definition NotificationMarkAllReadView_patch :: "user \<Rightarrow> db \<Rightarrow> string \<times> db" where
  "NotificationMarkAllReadView_patch u d =
     (if \<not> list_ex (\<lambda>n. n_user n = uid u \<and> is_read n = False) (notifications d)
      then (''No unread notifications to mark as read.'', d)
      else (''All notifications marked as read.'',
            d\<lparr>notifications :=
                map (\<lambda>n. if n_user n = uid u \<and> is_read n = False then n\<lparr>is_read := True\<rparr> else n)
                    (notifications d)\<rparr>))"

section \<open>Sample data\<close>

text \<open>
  Concrete rows on which the theorems below are evaluated: two users with
  the default role and two editors; an approved publication of the first
  user with its pending and rejected variants, and publications of other
  users; a ledger row in which the second user likes the publication; four
  notifications; request data and validated data for an update.
\<close>

definition alice :: user where
  "alice = \<lparr>uid = 1, role = ''author'', full_name = ''Alice''\<rparr>"

definition bob :: user where
  "bob = \<lparr>uid = 2, role = ''author'', full_name = ''Bob''\<rparr>"

definition carol :: user where
  "carol = \<lparr>uid = 3, role = ''editor'', full_name = ''Carol''\<rparr>"

definition dave :: user where
  "dave = \<lparr>uid = 4, role = ''editor'', full_name = ''Dave''\<rparr>"

definition paper :: publication where
  "paper = \<lparr>pid = 1, title = ''Graph colouring'', abstract = ''abstract'', content = ''content'',
            file_field = None, video_file = None, author = 1, editor = None, categories = [],
            keywords_field = ''graphs'', views = 0, status = ''approved'',
            rejection_note = None\<rparr>"

definition db0 :: db where
  "db0 = \<lparr>users = [alice, bob, carol, dave], publications = [paper], views_tbl = [],
          notifications = [], category_tbl = []\<rparr>"

definition bob_likes :: views_row where
  "bob_likes = \<lparr>vid = 1, v_publication = 1, v_user = 2, user_liked = True, user_disliked = False\<rparr>"

definition db_liked :: db where
  "db_liked = db0\<lparr>views_tbl := [bob_likes]\<rparr>"

definition demo_env :: env where
  "demo_env = \<lparr>now = (\<lambda>k. 1000 + k), strftime = (\<lambda>t. ''noon'')\<rparr>"

definition rejected_paper :: publication where
  "rejected_paper = paper\<lparr>status := ''rejected'', rejection_note := Some ''too short''\<rparr>"

definition pending_paper :: publication where
  "pending_paper = paper\<lparr>status := ''pending''\<rparr>"

definition db_rejected :: db where
  "db_rejected = db0\<lparr>publications := [rejected_paper]\<rparr>"

definition db_pending :: db where
  "db_pending = db0\<lparr>publications := [pending_paper]\<rparr>"

definition no_data :: pub_data where
  "no_data = \<lparr>d_title = None, d_abstract = None, d_content = None, d_file = None,
              d_video_file = None, d_categories = None, d_keywords = None, d_status = None,
              d_rejection_note = None\<rparr>"

definition new_title :: pub_data where
  "new_title = no_data\<lparr>d_title := Some ''Graph colouring, revised''\<rparr>"

definition no_request :: request_data where
  "no_request = \<lparr>data_status = Absent, data_rejection_note = Absent\<rparr>"

definition approve_with_note :: request_data where
  "approve_with_note = \<lparr>data_status = Str ''approved'', data_rejection_note = Str '' too short ''\<rparr>"

definition carols_paper :: publication where
  "carols_paper = rejected_paper\<lparr>pid := 2, author := 3\<rparr>"

definition bobs_draft :: publication where
  "bobs_draft = paper\<lparr>pid := 2, title := ''Trees'', author := 2, status := ''pending''\<rparr>"

definition carols_rejected :: publication where
  "carols_rejected = paper\<lparr>pid := 3, title := ''Flows'', author := 3, status := ''rejected''\<rparr>"

definition db_three :: db where
  "db_three = db0\<lparr>publications := [paper, bobs_draft, carols_rejected]\<rparr>"

definition note_old :: notification where
  "note_old = \<lparr>nid = 1, n_user = 1, message = ''first'', is_read = False, created_at = 10,
               related_publication = 1\<rparr>"

definition note_read :: notification where
  "note_read = \<lparr>nid = 2, n_user = 1, message = ''second'', is_read = True, created_at = 20,
                related_publication = 1\<rparr>"

definition note_new :: notification where
  "note_new = \<lparr>nid = 3, n_user = 1, message = ''third'', is_read = False, created_at = 30,
               related_publication = 1\<rparr>"

definition note_other :: notification where
  "note_other = \<lparr>nid = 4, n_user = 2, message = ''fourth'', is_read = False, created_at = 40,
                 related_publication = 1\<rparr>"

definition db_notes :: db where
  "db_notes = db0\<lparr>notifications := [note_old, note_read, note_new, note_other]\<rparr>"

definition read_and_rewrite :: notification_data where
  "read_and_rewrite = \<lparr>nd_message = Some ''rewritten'', nd_is_read = Some True\<rparr>"


section \<open>Lookups in a table that is written row by row\<close>

lemma find_map_keep:
  assumes "\<And>x. P (f x) = P x"
  shows "find P (map f xs) = map_option f (find P xs)"
  using assms by (induction xs) auto

lemma find_snoc:
  "find P (xs @ [x]) =
     (case find P xs of Some y \<Rightarrow> Some y | None \<Rightarrow> if P x then Some x else None)"
  by (induction xs) auto

lemma lookup_pub_pid: "lookup_pub pk d = Some p \<Longrightarrow> pid p = pk"
  by (auto simp: lookup_pub_def find_Some_iff)

section \<open>The reaction ledger keeps its flags exclusive\<close>

lemma flags_exclusive_get_or_create:
  "flags_exclusive d \<Longrightarrow> get_or_create pk u d = (r, c, d1) \<Longrightarrow>
     flags_exclusive d1 \<and> \<not> (user_liked r \<and> user_disliked r)"
  by (auto simp: get_or_create_def flags_exclusive_def Let_def list_all_iff find_Some_iff
           split: option.splits)

lemma flags_exclusive_save_flags:
  "flags_exclusive d \<Longrightarrow> \<not> (user_liked obj \<and> user_disliked obj) \<Longrightarrow>
     flags_exclusive (save_flags obj d)"
  by (auto simp: save_flags_def flags_exclusive_def list_all_iff)

lemma flags_exclusive_patch:
  "flags_exclusive d \<Longrightarrow> flags_exclusive (snd (ViewsUpdateView_patch u pk action d))"
  by (auto simp: ViewsUpdateView_patch_def react_ok_def split: option.splits prod.splits
           dest: flags_exclusive_get_or_create intro!: flags_exclusive_save_flags)

lemma flags_exclusive_reacts:
  "flags_exclusive d \<Longrightarrow> flags_exclusive (reacts rs d)"
  by (induction rs d rule: reacts.induct) (auto simp: flags_exclusive_patch)

lemma ledger_row_save_flags:
  "ledger_row pk u (save_flags obj d) =
     map_option (\<lambda>r. if vid r = vid obj
                   then r\<lparr>user_liked := user_liked obj, user_disliked := user_disliked obj\<rparr>
                   else r) (ledger_row pk u d)"
  unfolding ledger_row_def save_flags_def
  by (simp add: find_map_keep)

lemma ledger_row_append:
  "ledger_row pk u (d\<lparr>views_tbl := views_tbl d @ [r]\<rparr>) =
     (case ledger_row pk u d of Some x \<Rightarrow> Some x
      | None \<Rightarrow> if v_publication r = pk \<and> v_user r = u then Some r else None)"
  unfolding ledger_row_def by (simp add: find_snoc)

lemma ledger_row_exclusive:
  "flags_exclusive d \<Longrightarrow> ledger_row pk u d = Some r \<Longrightarrow> \<not> (user_liked r \<and> user_disliked r)"
  by (auto simp: flags_exclusive_def ledger_row_def list_all_iff find_Some_iff)

lemma patch_dislike_row:
  assumes "lookup_pub pk d = Some p"
  shows "\<exists>r. ledger_row pk (uid u) (snd (ViewsUpdateView_patch u pk (Some ''dislike'') d)) = Some r
           \<and> user_disliked r \<and> (flags_exclusive d \<longrightarrow> \<not> user_liked r)"
proof (cases "ledger_row pk (uid u) d")
  case None
  then show ?thesis
    using assms lookup_pub_pid[OF assms]
    by (simp add: ViewsUpdateView_patch_def get_or_create_def ledger_row_def[symmetric] Let_def
                  react_ok_def ledger_row_save_flags ledger_row_append)
next
  case (Some r)
  then show ?thesis
    using assms lookup_pub_pid[OF assms] ledger_row_exclusive[of d pk "uid u" r]
    by (auto simp: ViewsUpdateView_patch_def get_or_create_def ledger_row_def[symmetric]
                   react_ok_def ledger_row_save_flags)
qed

lemma patch_publications:
  "publications (snd (ViewsUpdateView_patch u pk a d)) = publications d"
  by (auto simp: ViewsUpdateView_patch_def get_or_create_def react_ok_def save_flags_def Let_def
           split: option.splits)

lemma like_then_dislike:
  assumes "flags_exclusive d" "lookup_pub pk d = Some p"
  shows "\<exists>r. ledger_row pk (uid u)
            (snd (ViewsUpdateView_patch u pk (Some ''dislike'')
                    (snd (ViewsUpdateView_patch u pk (Some ''like'') d)))) = Some r
           \<and> user_disliked r \<and> \<not> user_liked r"
proof -
  let ?d1 = "snd (ViewsUpdateView_patch u pk (Some ''like'') d)"
  have "flags_exclusive ?d1" using assms(1) by (rule flags_exclusive_patch)
  moreover have "lookup_pub pk ?d1 = Some p"
    using assms(2) by (simp add: lookup_pub_def patch_publications)
  ultimately show ?thesis using patch_dislike_row[of pk ?d1 p u] by blast
qed

text \<open>
  C6. No ledger row ever has both flags true: a row is created with both flags
  false, and when no row has both flags true before a run of reactions (by any
  users, on any publications, with any actions, failed calls included), none
  has after it. A like followed at once by a dislike of the same user on an
  existing publication leaves that pair's row disliked and not liked.
\<close>

theorem reactions_keep_flags_exclusive:
  assumes "flags_exclusive d"
  shows "flags_exclusive (reacts rs d)
       \<and> (ledger_row pk (uid u) d = None \<longrightarrow>
            \<not> user_liked (fst (get_or_create pk (uid u) d))
          \<and> \<not> user_disliked (fst (get_or_create pk (uid u) d)))
       \<and> (lookup_pub pk d \<noteq> None \<longrightarrow>
            (\<exists>r. ledger_row pk (uid u)
                    (snd (ViewsUpdateView_patch u pk (Some ''dislike'')
                            (snd (ViewsUpdateView_patch u pk (Some ''like'') d)))) = Some r
                 \<and> user_disliked r \<and> \<not> user_liked r))"
proof (intro conjI impI)
  show "flags_exclusive (reacts rs d)" using assms by (rule flags_exclusive_reacts)
next
  assume "ledger_row pk (uid u) d = None"
  then show "\<not> user_liked (fst (get_or_create pk (uid u) d))"
    by (simp add: get_or_create_def ledger_row_def Let_def)
next
  assume "ledger_row pk (uid u) d = None"
  then show "\<not> user_disliked (fst (get_or_create pk (uid u) d))"
    by (simp add: get_or_create_def ledger_row_def Let_def)
next
  assume "lookup_pub pk d \<noteq> None"
  then obtain p where "lookup_pub pk d = Some p" by auto
  with assms show "\<exists>r. ledger_row pk (uid u)
                    (snd (ViewsUpdateView_patch u pk (Some ''dislike'')
                            (snd (ViewsUpdateView_patch u pk (Some ''like'') d)))) = Some r
                 \<and> user_disliked r \<and> \<not> user_liked r"
    by (rule like_then_dislike)
qed

theorem reactions_keep_flags_exclusive_witness:
  "flags_exclusive db0
   \<and> flags_exclusive (reacts [(bob, 1, Some ''like''), (alice, 1, Some ''dislike''),
                               (bob, 1, Some ''dislike''), (bob, 1, Some ''dislike'')] db0)
   \<and> ledger_row 1 (uid bob) db0 = None
   \<and> lookup_pub 1 db0 \<noteq> None
   \<and> (\<exists>r. ledger_row 1 (uid bob)
              (snd (ViewsUpdateView_patch bob 1 (Some ''dislike'')
                      (snd (ViewsUpdateView_patch bob 1 (Some ''like'') db0)))) = Some r
           \<and> user_disliked r \<and> \<not> user_liked r)"
proof -
  have h: "flags_exclusive db0" by (simp add: flags_exclusive_def db0_def)
  have l: "lookup_pub 1 db0 \<noteq> None" by (simp add: lookup_pub_def db0_def paper_def)
  have n: "ledger_row 1 (uid bob) db0 = None" by (simp add: ledger_row_def db0_def)
  show ?thesis
    using h l n reactions_keep_flags_exclusive [OF h,
        of "[(bob, 1, Some ''like''), (alice, 1, Some ''dislike''),
             (bob, 1, Some ''dislike''), (bob, 1, Some ''dislike'')]" 1 bob]
    by blast
qed

text \<open>
  C7. When the ledger row of the pair already has the requested flag true, the
  reaction is answered with the 400 response that says the publication is
  already liked, or already disliked, which is not the response to an
  invalid action; and the whole database, the ledger row included, is what
  it was before the call.
\<close>

theorem duplicate_reaction_rejected:
  assumes "lookup_pub pk d = Some p"
      and "ledger_row pk (uid u) d = Some r"
      and "(action = ''like'' \<and> user_liked r) \<or> (action = ''dislike'' \<and> user_disliked r)"
    shows "ViewsUpdateView_patch u pk (Some action) d
             = (Inl (BadRequest (if action = ''like''
                                 then ''You have already liked this publication.''
                                 else ''You have already disliked this publication.'')), d)
         \<and> fst (ViewsUpdateView_patch u pk (Some action) d)
             \<noteq> Inl (BadRequest ''Invalid action. Use 'like' or 'dislike'.'')"
proof -
  have k: "pid p = pk" using assms(1) by (rule lookup_pub_pid)
  have f: "find (\<lambda>r. v_publication r = pk \<and> v_user r = uid u) (views_tbl d) = Some r"
    using assms(2) by (simp add: ledger_row_def)
  from assms(3) show ?thesis
  proof
    assume "action = ''like'' \<and> user_liked r"
    then show ?thesis
      using assms(1) k f by (simp add: ViewsUpdateView_patch_def get_or_create_def)
  next
    assume "action = ''dislike'' \<and> user_disliked r"
    then show ?thesis
      using assms(1) k f by (simp add: ViewsUpdateView_patch_def get_or_create_def)
  qed
qed

theorem duplicate_reaction_rejected_witness:
  "lookup_pub 1 db_liked = Some paper
   \<and> ledger_row 1 (uid bob) db_liked = Some bob_likes
   \<and> user_liked bob_likes
   \<and> ViewsUpdateView_patch bob 1 (Some ''like'') db_liked
        = (Inl (BadRequest ''You have already liked this publication.''), db_liked)"
proof -
  have a: "lookup_pub 1 db_liked = Some paper"
    by (simp add: lookup_pub_def db_liked_def db0_def paper_def)
  have b: "ledger_row 1 (uid bob) db_liked = Some bob_likes"
    by (simp add: ledger_row_def db_liked_def db0_def bob_likes_def bob_def)
  have c: "user_liked bob_likes" by (simp add: bob_likes_def)
  have t: "ViewsUpdateView_patch bob 1 (Some ''like'') db_liked
        = (Inl (BadRequest ''You have already liked this publication.''), db_liked)"
    using duplicate_reaction_rejected [OF a b, of "''like''", THEN conjunct1] c by simp
  show ?thesis using a b c t by (intro conjI)
qed

section \<open>What the serializer stores\<close>

lemma lookup_pub_list_ex:
  "lookup_pub pk d = Some row \<Longrightarrow> list_ex (\<lambda>r. pid r = pk) (publications d)"
  by (auto simp: lookup_pub_def find_Some_iff list_ex_iff)

lemma lookup_save_publication:
  "list_ex (\<lambda>r. pid r = pid obj) (publications d) \<Longrightarrow>
   lookup_pub pk (save_publication obj d) =
     map_option (\<lambda>r. if pid r = pid obj then obj\<lparr>categories := categories r\<rparr> else r) (lookup_pub pk d)"
  unfolding lookup_pub_def save_publication_def by (simp add: find_map_keep)

lemma lookup_save_categories:
  "lookup_pub pk (save_categories obj d) =
     map_option (\<lambda>r. if pid r = pid obj then r\<lparr>categories := categories obj\<rparr> else r) (lookup_pub pk d)"
  unfolding lookup_pub_def save_categories_def by (simp add: find_map_keep)

lemma lookup_save_rejection_note:
  "lookup_pub pk (save_rejection_note obj d) =
     map_option (\<lambda>r. if pid r = pid obj then r\<lparr>rejection_note := rejection_note obj\<rparr> else r) (lookup_pub pk d)"
  unfolding lookup_pub_def save_rejection_note_def by (simp add: find_map_keep)

lemma lookup_save_views:
  "lookup_pub pk (save_views obj d) =
     map_option (\<lambda>r. if pid r = pid obj then r\<lparr>views := views obj\<rparr> else r) (lookup_pub pk d)"
  unfolding lookup_pub_def save_views_def by (simp add: find_map_keep)

lemma lookup_ensure_categories: "lookup_pub pk (ensure_categories cats d) = lookup_pub pk d"
  by (simp add: lookup_pub_def ensure_categories_def)

lemma serializer_update_pid:
  "pid (fst (PublicationSerializer_update instance vd kw d)) = pid instance"
  by (simp add: PublicationSerializer_update_def Let_def set_attrs_def split: option.splits)

lemma serializer_update_stored:
  assumes "lookup_pub (pid instance) d = Some row"
  shows "\<exists>row'. lookup_pub (pid instance) (snd (PublicationSerializer_update instance vd kw d)) = Some row'
           \<and> row' = (fst (PublicationSerializer_update instance vd kw d))\<lparr>categories := categories row'\<rparr>"
proof -
  have p: "pid row = pid instance" using assms by (rule lookup_pub_pid)
  have q: "pid (set_attrs vd kw instance) = pid instance" by (simp add: set_attrs_def)
  have x: "list_ex (\<lambda>r. pid r = pid (set_attrs vd kw instance)) (publications d)"
    unfolding q using assms by (rule lookup_pub_list_ex)
  note lookup_save_publication = lookup_save_publication [OF x]
  show ?thesis
  proof (cases "d_categories vd")
    case None
    then show ?thesis using assms p q
      by (simp add: PublicationSerializer_update_def Let_def lookup_save_publication)
  next
    case (Some cats)
    then show ?thesis using assms p q
      by (simp add: PublicationSerializer_update_def Let_def lookup_save_publication
            lookup_save_categories lookup_ensure_categories)
  qed
qed

section \<open>The status change: stored fields and notifications\<close>

lemma notify_editors_frame:
  "publications (notify_editors e k u inst sv xs d) = publications d
   \<and> users (notify_editors e k u inst sv xs d) = users d
   \<and> views_tbl (notify_editors e k u inst sv xs d) = views_tbl d"
  by (induction xs arbitrary: k d) (auto simp: Notification_create_def)

lemma notify_editors_notifications:
  "\<exists>es. notifications (notify_editors e k u inst sv xs d) = notifications d @ es
         \<and> map n_user es = map uid xs
         \<and> list_all (\<lambda>n. related_publication n = pid inst \<and> \<not> is_read n) es"
proof (induction xs arbitrary: k d)
  case Nil
  then show ?case by simp
next
  case (Cons x xs)
  let ?d1 = "Notification_create (uid x)
          (editor_message (title inst) sv (full_name u) (strftime e (now e k)))
          (pid inst) (now e (k + 1)) d"
  obtain es where es: "notifications (notify_editors e (k + 2) u inst sv xs ?d1) = notifications ?d1 @ es"
       "map n_user es = map uid xs"
       "list_all (\<lambda>n. related_publication n = pid inst \<and> \<not> is_read n) es"
    using Cons.IH[of "k + 2" ?d1] by blast
  obtain a where a: "notifications ?d1 = notifications d @ [a]" "n_user a = uid x"
       "related_publication a = pid inst" "\<not> is_read a"
    by (simp add: Notification_create_def)
  show ?case
    apply (rule exI[of _ "a # es"])
    using es a by simp
qed

lemma serializer_update_users:
  "users (snd (PublicationSerializer_update instance vd kw d)) = users d"
  by (simp add: PublicationSerializer_update_def Let_def save_publication_def save_categories_def
        ensure_categories_def split: option.splits)

lemma serializer_update_notifications:
  "notifications (snd (PublicationSerializer_update instance vd kw d)) = notifications d"
  by (simp add: PublicationSerializer_update_def Let_def save_publication_def save_categories_def
        ensure_categories_def split: option.splits)

lemma serializer_update_author:
  "k_author kw = None \<Longrightarrow>
     author (fst (PublicationSerializer_update instance vd kw d)) = author instance"
  by (simp add: PublicationSerializer_update_def Let_def set_attrs_def get_default_def
        split: option.splits)

lemma serializer_update_status:
  "status (fst (PublicationSerializer_update instance vd kw d))
     = get_default (merged_status vd kw) (status instance)"
  by (simp add: PublicationSerializer_update_def Let_def set_attrs_def split: option.splits)

lemma serializer_update_editor:
  "editor (fst (PublicationSerializer_update instance vd kw d))
     = (case k_editor kw of Some x \<Rightarrow> Some x | None \<Rightarrow> editor instance)"
  by (simp add: PublicationSerializer_update_def Let_def set_attrs_def split: option.splits)

lemma change_status_response:
  "fst (change_status e u sv note vd instance d)
     = Inr (StatusResponse ''Publication status updated successfully.'' note)"
  by (simp add: change_status_def Let_def case_prod_beta)

lemma change_status_snd:
  "snd (change_status e u sv note vd instance d) =
     (let upd = PublicationSerializer_update instance vd
                  (no_kwargs\<lparr>k_editor := Some (uid u), k_status := Some sv\<rparr>) d;
          inst = (fst upd)\<lparr>rejection_note := (if sv = ''rejected'' then note else None)\<rparr>
      in notify_editors e 2 u inst sv
           (filter (\<lambda>x. role x = ''editor'' \<and> uid x \<noteq> uid u) (users d))
           (Notification_create (author instance)
              (author_message (title inst) sv (strftime e (now e 0)))
              (pid instance) (now e 1) (save_rejection_note inst (snd upd))))"
proof -
  have a: "author (fst (PublicationSerializer_update instance vd
                  (no_kwargs\<lparr>k_editor := Some (uid u), k_status := Some sv\<rparr>) d)) = author instance"
    by (rule serializer_update_author) (simp add: no_kwargs_def)
  have u: "users (Notification_create r m p t (save_rejection_note i x)) = users x" for r m p t i x
    by (simp add: Notification_create_def save_rejection_note_def)
  show ?thesis
    by (simp add: change_status_def Let_def case_prod_beta a u serializer_update_pid
          serializer_update_users)
qed

lemma change_status_notifications:
  "\<exists>a es. notifications (snd (change_status e u sv note vd instance d)) = notifications d @ a # es
       \<and> n_user a = author instance \<and> related_publication a = pid instance \<and> \<not> is_read a
       \<and> map n_user es = map uid (filter (\<lambda>x. role x = ''editor'' \<and> uid x \<noteq> uid u) (users d))
       \<and> list_all (\<lambda>n. related_publication n = pid instance \<and> \<not> is_read n) es"
proof -
  define upd where "upd = PublicationSerializer_update instance vd
                  (no_kwargs\<lparr>k_editor := Some (uid u), k_status := Some sv\<rparr>) d"
  define inst where "inst = (fst upd)\<lparr>rejection_note := (if sv = ''rejected'' then note else None)\<rparr>"
  define d2 where "d2 = save_rejection_note inst (snd upd)"
  define d3 where "d3 = Notification_create (author instance)
              (author_message (title inst) sv (strftime e (now e 0)))
              (pid instance) (now e 1) d2"
  define eds where "eds = filter (\<lambda>x. role x = ''editor'' \<and> uid x \<noteq> uid u) (users d)"
  have s: "snd (change_status e u sv note vd instance d) = notify_editors e 2 u inst sv eds d3"
    unfolding change_status_snd upd_def inst_def d2_def d3_def eds_def Let_def ..
  have pi: "pid inst = pid instance"
    by (simp add: inst_def upd_def serializer_update_pid)
  have n2: "notifications d2 = notifications d"
    by (simp add: d2_def save_rejection_note_def upd_def serializer_update_notifications)
  obtain a where a: "notifications d3 = notifications d @ [a]" "n_user a = author instance"
       "related_publication a = pid instance" "\<not> is_read a"
    by (simp add: d3_def Notification_create_def n2)
  obtain es where es: "notifications (notify_editors e 2 u inst sv eds d3) = notifications d3 @ es"
       "map n_user es = map uid eds"
       "list_all (\<lambda>n. related_publication n = pid inst \<and> \<not> is_read n) es"
    using notify_editors_notifications[of e 2 u inst sv eds d3] by blast
  show ?thesis
    apply (intro exI[of _ a] exI[of _ es])
    using a es s pi by (simp add: eds_def)
qed

lemma change_status_stored:
  assumes "lookup_pub (pid instance) d = Some row"
  shows "\<exists>row'. lookup_pub (pid instance) (snd (change_status e u sv note vd instance d)) = Some row'
           \<and> rejection_note row' = (if sv = ''rejected'' then note else None)
           \<and> status row' = sv \<and> editor row' = Some (uid u)"
proof -
  define kw where "kw = no_kwargs\<lparr>k_editor := Some (uid u), k_status := Some sv\<rparr>"
  define upd where "upd = PublicationSerializer_update instance vd kw d"
  define inst where "inst = (fst upd)\<lparr>rejection_note := (if sv = ''rejected'' then note else None)\<rparr>"
  define d2 where "d2 = save_rejection_note inst (snd upd)"
  define d3 where "d3 = Notification_create (author instance)
              (author_message (title inst) sv (strftime e (now e 0)))
              (pid instance) (now e 1) d2"
  define eds where "eds = filter (\<lambda>x. role x = ''editor'' \<and> uid x \<noteq> uid u) (users d)"
  have s: "snd (change_status e u sv note vd instance d) = notify_editors e 2 u inst sv eds d3"
    unfolding change_status_snd upd_def kw_def inst_def d2_def d3_def eds_def Let_def ..
  have ia: "pid (fst upd) = pid instance" "status (fst upd) = sv" "editor (fst upd) = Some (uid u)"
    by (simp_all add: upd_def kw_def serializer_update_pid serializer_update_status
          serializer_update_editor merged_status_def get_default_def no_kwargs_def)
  obtain row1 where r1: "lookup_pub (pid instance) (snd upd) = Some row1"
      "row1 = (fst upd)\<lparr>categories := categories row1\<rparr>"
    using serializer_update_stored[OF assms, of vd kw] unfolding upd_def by blast
  have st: "status row1 = sv" "editor row1 = Some (uid u)" "pid row1 = pid instance"
    using arg_cong[OF r1(2), of status] arg_cong[OF r1(2), of editor]
          arg_cong[OF r1(2), of pid] ia by simp_all
  have l2: "lookup_pub (pid instance) d2
              = Some (row1\<lparr>rejection_note := (if sv = ''rejected'' then note else None)\<rparr>)"
    using r1(1) ia st(3) by (simp add: d2_def lookup_save_rejection_note inst_def)
  have "publications (notify_editors e 2 u inst sv eds d3) = publications d2"
    by (simp add: notify_editors_frame d3_def Notification_create_def)
  then have "lookup_pub (pid instance) (snd (change_status e u sv note vd instance d))
              = lookup_pub (pid instance) d2"
    by (simp add: lookup_pub_def s)
  then show ?thesis using l2 st by simp
qed

lemma serializer_update_content:
  "title (fst (PublicationSerializer_update instance vd kw d)) = get_default (d_title vd) (title instance)
   \<and> abstract (fst (PublicationSerializer_update instance vd kw d)) = get_default (d_abstract vd) (abstract instance)
   \<and> content (fst (PublicationSerializer_update instance vd kw d)) = get_default (d_content vd) (content instance)"
  by (simp add: PublicationSerializer_update_def Let_def set_attrs_def split: option.splits)

lemma serializer_update_content_stored:
  assumes "lookup_pub (pid instance) d = Some row"
  shows "\<exists>row'. lookup_pub (pid instance) (snd (PublicationSerializer_update instance vd kw d)) = Some row'
           \<and> title row' = get_default (d_title vd) (title instance)
           \<and> abstract row' = get_default (d_abstract vd) (abstract instance)
           \<and> content row' = get_default (d_content vd) (content instance)"
proof -
  obtain row1 where r1: "lookup_pub (pid instance) (snd (PublicationSerializer_update instance vd kw d)) = Some row1"
      "row1 = (fst (PublicationSerializer_update instance vd kw d))\<lparr>categories := categories row1\<rparr>"
    using serializer_update_stored[OF assms, of vd kw] by blast
  show ?thesis
  proof -
    have "title row1 = title (fst (PublicationSerializer_update instance vd kw d))"
      using r1(2) by (metis publication.select_convs(2) publication.surjective publication.update_convs(9))
    moreover have "abstract row1 = abstract (fst (PublicationSerializer_update instance vd kw d))"
      using r1(2) by (metis publication.select_convs(3) publication.surjective publication.update_convs(9))
    moreover have "content row1 = content (fst (PublicationSerializer_update instance vd kw d))"
      using r1(2) by (metis publication.select_convs(4) publication.surjective publication.update_convs(9))
    ultimately show ?thesis
      using r1(1) by (simp add: serializer_update_content)
  qed
qed

section \<open>Rejected publications in \<^verbatim>\<open>perform_update\<close>\<close>

lemma normalise_note_not_null:
  "v \<noteq> Null \<Longrightarrow> \<exists>note. normalise_note v = Inr note"
  by (cases v) (simp_all add: normalise_note_def)

text \<open>
  C2. On a rejected publication the guard of \<^verbatim>\<open>perform_update\<close> asks for the
  role editor. The author of a rejected publication is stopped by it, with
  the \<^verbatim>\<open>ValueError\<close> and an unchanged database, exactly when the author's
  role is editor; an author with any other role reaches the author branch,
  the update succeeds and the validated title, abstract and content are
  stored. (A \<^verbatim>\<open>null\<close> rejection note fails earlier, at \<^verbatim>\<open>strip\<close>.)
\<close>

theorem rejected_guard_is_for_editors:
  assumes "status instance = ''rejected''"
      and "uid u = author instance"
      and "data_rejection_note data \<noteq> Null"
  shows "(role u = ''editor'' \<longrightarrow>
            PublicationDetailView_perform_update e u data vd instance d
              = (Inl (ValueError ''Rejected publications cannot be changed or updated.''), d))
       \<and> (role u \<noteq> ''editor'' \<longrightarrow>
            PublicationDetailView_perform_update e u data vd instance d
              = (Inr (MessageResponse ''Publication updated successfully.''),
                 snd (PublicationSerializer_update instance vd no_kwargs d))
          \<and> (lookup_pub (pid instance) d \<noteq> None \<longrightarrow>
               (\<exists>row'. lookup_pub (pid instance)
                          (snd (PublicationDetailView_perform_update e u data vd instance d)) = Some row'
                  \<and> title row' = get_default (d_title vd) (title instance)
                  \<and> abstract row' = get_default (d_abstract vd) (abstract instance)
                  \<and> content row' = get_default (d_content vd) (content instance))))"
proof -
  obtain nt where n: "normalise_note (data_rejection_note data) = Inr nt"
    using normalise_note_not_null[OF assms(3)] by blast
  have ed: "role u = ''editor'' \<Longrightarrow>
            PublicationDetailView_perform_update e u data vd instance d
              = (Inl (ValueError ''Rejected publications cannot be changed or updated.''), d)"
    using assms(1) by (simp add: PublicationDetailView_perform_update_def n)
  have au: "role u \<noteq> ''editor'' \<Longrightarrow>
            PublicationDetailView_perform_update e u data vd instance d
              = (Inr (MessageResponse ''Publication updated successfully.''),
                 snd (PublicationSerializer_update instance vd no_kwargs d))"
    using assms(2) by (simp add: PublicationDetailView_perform_update_def n case_prod_beta)
  have st: "role u \<noteq> ''editor'' \<Longrightarrow> lookup_pub (pid instance) d \<noteq> None \<Longrightarrow>
               (\<exists>row'. lookup_pub (pid instance)
                          (snd (PublicationDetailView_perform_update e u data vd instance d)) = Some row'
                  \<and> title row' = get_default (d_title vd) (title instance)
                  \<and> abstract row' = get_default (d_abstract vd) (abstract instance)
                  \<and> content row' = get_default (d_content vd) (content instance))"
    using serializer_update_content_stored[of "instance" d _ vd no_kwargs] au by auto
  show ?thesis using ed au st by blast
qed

theorem rejected_guard_is_for_editors_witness:
  "status rejected_paper = ''rejected''
   \<and> uid alice = author rejected_paper
   \<and> role alice \<noteq> ''editor''
   \<and> data_rejection_note no_request \<noteq> Null
   \<and> lookup_pub (pid rejected_paper) db_rejected \<noteq> None
   \<and> PublicationDetailView_perform_update demo_env alice no_request new_title rejected_paper db_rejected
        = (Inr (MessageResponse ''Publication updated successfully.''),
           snd (PublicationSerializer_update rejected_paper new_title no_kwargs db_rejected))
   \<and> (\<exists>row'. lookup_pub (pid rejected_paper)
                 (snd (PublicationDetailView_perform_update demo_env alice no_request new_title
                         rejected_paper db_rejected)) = Some row'
          \<and> title row' = ''Graph colouring, revised'')
   \<and> status carols_paper = ''rejected''
   \<and> uid carol = author carols_paper
   \<and> role carol = ''editor''
   \<and> PublicationDetailView_perform_update demo_env carol no_request new_title carols_paper db_rejected
        = (Inl (ValueError ''Rejected publications cannot be changed or updated.''), db_rejected)"
proof -
  have a: "status rejected_paper = ''rejected''" by (simp add: rejected_paper_def)
  have b: "uid alice = author rejected_paper" by (simp add: rejected_paper_def paper_def alice_def)
  have c: "data_rejection_note no_request \<noteq> Null" by (simp add: no_request_def)
  have r: "role alice \<noteq> ''editor''" by (simp add: alice_def)
  have l: "lookup_pub (pid rejected_paper) db_rejected \<noteq> None"
    by (simp add: lookup_pub_def db_rejected_def db0_def)
  have t: "get_default (d_title new_title) (title rejected_paper) = ''Graph colouring, revised''"
    by (simp add: get_default_def new_title_def)
  have a': "status carols_paper = ''rejected''" by (simp add: carols_paper_def rejected_paper_def)
  have b': "uid carol = author carols_paper" by (simp add: carols_paper_def carol_def)
  have r': "role carol = ''editor''" by (simp add: carol_def)
  show ?thesis
    using a b c r l a' b' r'
      rejected_guard_is_for_editors [OF a b c, of demo_env new_title db_rejected]
      rejected_guard_is_for_editors [OF a' b' c, of demo_env new_title db_rejected]
    unfolding t by blast
qed

text \<open>
  The first user, whose role is not editor, retitles her own rejected
  publication: the call succeeds and the new title is stored.
\<close>

theorem author_edits_rejected_counterexample:
  "PublicationDetailView_perform_update demo_env alice no_request new_title rejected_paper db_rejected
     = (Inr (MessageResponse ''Publication updated successfully.''),
        db_rejected\<lparr>publications := [rejected_paper\<lparr>title := ''Graph colouring, revised''\<rparr>]\<rparr>)"
  by (simp add: PublicationDetailView_perform_update_def normalise_note_def no_request_def
        alice_def rejected_paper_def paper_def PublicationSerializer_update_def new_title_def
        no_data_def set_attrs_def get_default_def merged_status_def no_kwargs_def
        save_publication_def db_rejected_def db0_def Let_def)

text \<open>
  C3. For a caller with role editor the guard comes before the status-change
  branch: on a rejected publication every call raises the \<^verbatim>\<open>ValueError\<close>
  and leaves the database as it is, whatever status the request supplies. On
  a publication that is not rejected a supplied non-empty status is stored
  and the status response is returned.
\<close>

theorem editor_blocked_on_rejected:
  assumes "role u = ''editor''"
      and "data_rejection_note data \<noteq> Null"
  shows "(status instance = ''rejected'' \<longrightarrow>
            PublicationDetailView_perform_update e u data vd instance d
              = (Inl (ValueError ''Rejected publications cannot be changed or updated.''), d))
       \<and> (status instance \<noteq> ''rejected'' \<and> truthy (data_status data) \<longrightarrow>
            (\<exists>r. fst (PublicationDetailView_perform_update e u data vd instance d)
                   = Inr (StatusResponse ''Publication status updated successfully.'' r))
          \<and> (lookup_pub (pid instance) d \<noteq> None \<longrightarrow>
               (\<exists>row'. lookup_pub (pid instance)
                          (snd (PublicationDetailView_perform_update e u data vd instance d)) = Some row'
                  \<and> status row' = text_of (data_status data))))"
proof -
  obtain nt where n: "normalise_note (data_rejection_note data) = Inr nt"
    using normalise_note_not_null[OF assms(2)] by blast
  have rej: "status instance = ''rejected'' \<Longrightarrow>
            PublicationDetailView_perform_update e u data vd instance d
              = (Inl (ValueError ''Rejected publications cannot be changed or updated.''), d)"
    using assms(1) by (simp add: PublicationDetailView_perform_update_def n)
  have ok: "status instance \<noteq> ''rejected'' \<Longrightarrow> truthy (data_status data) \<Longrightarrow>
            PublicationDetailView_perform_update e u data vd instance d
              = change_status e u (text_of (data_status data)) nt vd instance d"
    using assms(1) by (simp add: PublicationDetailView_perform_update_def n)
  have st: "status instance \<noteq> ''rejected'' \<Longrightarrow> truthy (data_status data) \<Longrightarrow>
            lookup_pub (pid instance) d \<noteq> None \<Longrightarrow>
               (\<exists>row'. lookup_pub (pid instance)
                          (snd (PublicationDetailView_perform_update e u data vd instance d)) = Some row'
                  \<and> status row' = text_of (data_status data))"
    using change_status_stored[of "instance" d _ e u "text_of (data_status data)" nt vd] ok
    by auto
  show ?thesis using rej ok st change_status_response by auto
qed

theorem editor_blocked_on_rejected_witness:
  "role carol = ''editor''
   \<and> data_rejection_note approve_with_note \<noteq> Null
   \<and> status rejected_paper = ''rejected''
   \<and> PublicationDetailView_perform_update demo_env carol approve_with_note no_data rejected_paper db_rejected
        = (Inl (ValueError ''Rejected publications cannot be changed or updated.''), db_rejected)
   \<and> status pending_paper \<noteq> ''rejected''
   \<and> truthy (data_status approve_with_note)
   \<and> lookup_pub (pid pending_paper) db_pending \<noteq> None
   \<and> (\<exists>r. fst (PublicationDetailView_perform_update demo_env carol approve_with_note no_data
                  pending_paper db_pending)
             = Inr (StatusResponse ''Publication status updated successfully.'' r))
   \<and> (\<exists>row'. lookup_pub (pid pending_paper)
                 (snd (PublicationDetailView_perform_update demo_env carol approve_with_note no_data
                         pending_paper db_pending)) = Some row'
          \<and> status row' = ''approved'')"
proof -
  have a: "role carol = ''editor''" by (simp add: carol_def)
  have b: "data_rejection_note approve_with_note \<noteq> Null" by (simp add: approve_with_note_def)
  have c: "status rejected_paper = ''rejected''" by (simp add: rejected_paper_def)
  have d: "status pending_paper \<noteq> ''rejected''" by (simp add: pending_paper_def)
  have e: "truthy (data_status approve_with_note)" by (simp add: approve_with_note_def)
  have l: "lookup_pub (pid pending_paper) db_pending \<noteq> None"
    by (simp add: lookup_pub_def db_pending_def db0_def)
  have t: "text_of (data_status approve_with_note) = ''approved''"
    by (simp add: approve_with_note_def)
  show ?thesis
    using a b c d e l
      editor_blocked_on_rejected [OF a b, of rejected_paper demo_env no_data db_rejected]
      editor_blocked_on_rejected [OF a b, of pending_paper demo_env no_data db_pending]
    unfolding t by blast
qed

text \<open>
  An editor asks for the rejected publication to become approved: the call
  raises, and the database is unchanged.
\<close>

theorem editor_reopens_rejected_counterexample:
  "PublicationDetailView_perform_update demo_env carol approve_with_note no_data rejected_paper db_rejected
     = (Inl (ValueError ''Rejected publications cannot be changed or updated.''), db_rejected)"
  by (simp add: PublicationDetailView_perform_update_def normalise_note_def approve_with_note_def
        carol_def rejected_paper_def paper_def)

section \<open>The rejection note: stored and answered\<close>

lemma perform_update_success:
  assumes "PublicationDetailView_perform_update e u data vd instance d
             = (Inr (StatusResponse m r), d')"
  shows "normalise_note (data_rejection_note data) = Inr r
       \<and> change_status e u (text_of (data_status data)) r vd instance d
            = (Inr (StatusResponse m r), d')"
proof (cases "normalise_note (data_rejection_note data)")
  case (Inl err)
  then show ?thesis using assms by (simp add: PublicationDetailView_perform_update_def)
next
  case (Inr nt)
  have "fst (change_status e u (text_of (data_status data)) nt vd instance d)
          = Inr (StatusResponse ''Publication status updated successfully.'' nt)"
    by (rule change_status_response)
  then show ?thesis using assms Inr
    by (auto simp: PublicationDetailView_perform_update_def case_prod_beta split: if_splits)
qed

lemma demo_approve_fst:
  "fst (PublicationDetailView_perform_update demo_env carol approve_with_note no_data
          pending_paper db_pending)
     = Inr (StatusResponse ''Publication status updated successfully.'' (Some ''too short''))"
proof -
  have n: "normalise_note (data_rejection_note approve_with_note) = Inr (Some ''too short'')"
    by (simp add: normalise_note_def approve_with_note_def strip_def is_space_def)
  have p: "PublicationDetailView_perform_update demo_env carol approve_with_note no_data
          pending_paper db_pending
        = change_status demo_env carol ''approved'' (Some ''too short'') no_data pending_paper db_pending"
    by (simp add: PublicationDetailView_perform_update_def n)
       (simp add: approve_with_note_def carol_def pending_paper_def paper_def)
  show ?thesis unfolding p by (rule change_status_response)
qed








section \<open>Where notifications are created\<close>

lemma get_object_notifications:
  "notifications (snd (PublicationDetailView_get_object u pk d)) = notifications d"
  by (simp add: PublicationDetailView_get_object_def save_views_def Let_def split: option.splits)

lemma patch_notifications:
  "notifications (snd (ViewsUpdateView_patch u pk a d)) = notifications d"
  by (auto simp: ViewsUpdateView_patch_def get_or_create_def react_ok_def save_flags_def Let_def
           split: option.splits)

lemma mark_read_nids:
  "map nid (notifications (snd (NotificationMarkReadView_update u pk nd d))) = map nid (notifications d)"
proof (cases "find (\<lambda>n. nid n = pk) (NotificationListView_get_queryset u d)")
  case None
  then show ?thesis by (simp add: NotificationMarkReadView_update_def)
next
  case (Some i)
  have "map nid (map (\<lambda>r. if nid r = nid i then i\<lparr>is_read := b\<rparr> else r) xs) = map nid xs" for b xs
    by (induction xs) auto
  moreover have "i \<in> set (notifications d)"
    using Some by (auto simp: find_Some_iff NotificationListView_get_queryset_def dest: nth_mem)
  then have "list_ex (\<lambda>r. nid r = nid i) (notifications d)"
    by (auto simp: list_ex_iff)
  ultimately show ?thesis using Some
    by (simp add: NotificationMarkReadView_update_def NotificationSerializer_update_def Let_def
          save_notification_def)
qed

lemma mark_all_read_nids:
  "map nid (notifications (snd (NotificationMarkAllReadView_patch u d))) = map nid (notifications d)"
proof -
  have "map nid (map (\<lambda>n. if P n then n\<lparr>is_read := True\<rparr> else n) xs) = map nid xs"
    for P and xs :: "notification list"
    by (induction xs) auto
  then show ?thesis by (simp add: NotificationMarkAllReadView_patch_def)
qed

lemma perform_create_notifications:
  "perform_create u vd d = Some (p, d1) \<Longrightarrow> notifications d1 = notifications d"
  by (auto simp: perform_create_def PublicationSerializer_create_def Let_def ensure_categories_def
        split: option.splits)

lemma perform_update_other_paths:
  assumes "PublicationDetailView_perform_update e u data vd instance d = (res, d1)"
      and "\<And>m r. res \<noteq> Inr (StatusResponse m r)"
  shows "notifications d1 = notifications d"
proof (cases "normalise_note (data_rejection_note data)")
  case (Inl err)
  then show ?thesis using assms(1) by (simp add: PublicationDetailView_perform_update_def)
next
  case (Inr nt)
  have cs: "fst (change_status e u (text_of (data_status data)) nt vd instance d)
          = Inr (StatusResponse ''Publication status updated successfully.'' nt)"
    by (rule change_status_response)
  show ?thesis
  proof (cases "\<not> (status instance = ''rejected'' \<and> role u = ''editor'')
                 \<and> role u = ''editor'' \<and> truthy (data_status data)")
    case True
    then have "res = fst (change_status e u (text_of (data_status data)) nt vd instance d)"
      using assms(1) Inr by (auto simp: PublicationDetailView_perform_update_def)
    then show ?thesis using cs assms(2) by simp
  next
    case False
    then show ?thesis using assms(1) Inr
      by (auto simp: PublicationDetailView_perform_update_def case_prod_beta
            serializer_update_notifications split: if_splits)
  qed
qed

text \<open>
  C5. A successful status change appends to the notification table exactly one
  notification for the publication's author, followed by exactly one for each
  row of the user table with role editor other than the acting editor, in
  table order; every one of them refers to the publication, and the older
  rows are untouched. When user keys are distinct, no editor is notified
  twice. No other path creates a notification: every other outcome of
  \<^verbatim>\<open>perform_update\<close>, the retrieval of a publication, a reaction and the
  creation of a publication leave the table as it is, and marking as read
  keeps its rows' keys.
\<close>

theorem status_change_fans_out:
  assumes "PublicationDetailView_perform_update e u data vd instance d
             = (Inr (StatusResponse m r), d')"
  shows "(\<exists>a es. notifications d' = notifications d @ a # es
            \<and> n_user a = author instance \<and> related_publication a = pid instance
            \<and> map n_user es = map uid (filter (\<lambda>x. role x = ''editor'' \<and> uid x \<noteq> uid u) (users d))
            \<and> list_all (\<lambda>n. related_publication n = pid instance) es
            \<and> (distinct (map uid (users d)) \<longrightarrow> distinct (map n_user es)))
       \<and> (\<forall>res d1. PublicationDetailView_perform_update e2 u2 data2 vd2 instance2 d2 = (res, d1)
             \<and> (\<forall>m2 r2. res \<noteq> Inr (StatusResponse m2 r2))
            \<longrightarrow> notifications d1 = notifications d2)
       \<and> notifications (snd (PublicationDetailView_get_object u2 pk d2)) = notifications d2
       \<and> notifications (snd (ViewsUpdateView_patch u2 pk act d2)) = notifications d2
       \<and> (\<forall>p d1. perform_create u2 vd2 d2 = Some (p, d1) \<longrightarrow> notifications d1 = notifications d2)
       \<and> map nid (notifications (snd (NotificationMarkReadView_update u2 pk nd d2)))
            = map nid (notifications d2)
       \<and> map nid (notifications (snd (NotificationMarkAllReadView_patch u2 d2)))
            = map nid (notifications d2)"
proof -
  have b: "change_status e u (text_of (data_status data)) r vd instance d
            = (Inr (StatusResponse m r), d')"
    using perform_update_success[OF assms] by simp
  obtain a es where f: "notifications d' = notifications d @ a # es"
       "n_user a = author instance" "related_publication a = pid instance"
       "map n_user es = map uid (filter (\<lambda>x. role x = ''editor'' \<and> uid x \<noteq> uid u) (users d))"
       "list_all (\<lambda>n. related_publication n = pid instance \<and> \<not> is_read n) es"
    using change_status_notifications[of e u "text_of (data_status data)" r vd "instance" d] b
    by auto
  have g: "list_all (\<lambda>n. related_publication n = pid instance) es"
    using f(5) by (simp add: list_all_iff)
  have h: "distinct (map uid (users d)) \<longrightarrow> distinct (map n_user es)"
    unfolding f(4) by (simp add: distinct_map_filter)
  have fan: "\<exists>a es. notifications d' = notifications d @ a # es
            \<and> n_user a = author instance \<and> related_publication a = pid instance
            \<and> map n_user es = map uid (filter (\<lambda>x. role x = ''editor'' \<and> uid x \<noteq> uid u) (users d))
            \<and> list_all (\<lambda>n. related_publication n = pid instance) es
            \<and> (distinct (map uid (users d)) \<longrightarrow> distinct (map n_user es))"
    using f(1,2,3,4) g h by blast
  have other: "\<forall>res d1. PublicationDetailView_perform_update e2 u2 data2 vd2 instance2 d2 = (res, d1)
             \<and> (\<forall>m2 r2. res \<noteq> Inr (StatusResponse m2 r2))
            \<longrightarrow> notifications d1 = notifications d2"
    using perform_update_other_paths by blast
  have cr: "\<forall>p d1. perform_create u2 vd2 d2 = Some (p, d1) \<longrightarrow> notifications d1 = notifications d2"
    using perform_create_notifications by blast
  show ?thesis
    using fan other cr get_object_notifications patch_notifications mark_read_nids
      mark_all_read_nids by blast
qed

theorem status_change_fans_out_witness:
  "PublicationDetailView_perform_update demo_env carol approve_with_note no_data pending_paper db_pending
     = (Inr (StatusResponse ''Publication status updated successfully.'' (Some ''too short'')),
        snd (PublicationDetailView_perform_update demo_env carol approve_with_note no_data
               pending_paper db_pending))
   \<and> distinct (map uid (users db_pending))
   \<and> (\<exists>a es. notifications (snd (PublicationDetailView_perform_update demo_env carol
                   approve_with_note no_data pending_paper db_pending)) = a # es
          \<and> n_user a = 1 \<and> related_publication a = 1
          \<and> map n_user es = [4]
          \<and> list_all (\<lambda>n. related_publication n = 1) es
          \<and> distinct (map n_user es))"
proof -
  have h: "PublicationDetailView_perform_update demo_env carol approve_with_note no_data pending_paper db_pending
     = (Inr (StatusResponse ''Publication status updated successfully.'' (Some ''too short'')),
        snd (PublicationDetailView_perform_update demo_env carol approve_with_note no_data
               pending_paper db_pending))"
    using demo_approve_fst by (metis prod.collapse)
  have n: "notifications db_pending = []" by (simp add: db_pending_def db0_def)
  have u: "map uid (filter (\<lambda>x. role x = ''editor'' \<and> uid x \<noteq> uid carol) (users db_pending)) = [4]"
    by (simp add: db_pending_def db0_def alice_def bob_def carol_def dave_def)
  have p: "author pending_paper = 1" "pid pending_paper = 1"
    by (simp_all add: pending_paper_def paper_def)
  have dd: "distinct (map uid (users db_pending))"
    by (simp add: db_pending_def db0_def alice_def bob_def carol_def dave_def)
  show ?thesis
    using h dd status_change_fans_out [OF h]
    unfolding n u p by auto
qed

section \<open>Counting views\<close>

lemma ledger_row_save_views: "ledger_row pk u (save_views obj d) = ledger_row pk u d"
  by (simp add: ledger_row_def save_views_def)

lemma get_object_counts:
  assumes "lookup_pub pk d = Some p" "has_object_permission u p" "ledger_row pk (uid u) d = None"
  shows "lookup_pub pk (snd (PublicationDetailView_get_object u pk d)) = Some (p\<lparr>views := views p + 1\<rparr>)
       \<and> ledger_row pk (uid u) (snd (PublicationDetailView_get_object u pk d)) = None"
proof -
  have k: "pid p = pk" using assms(1) by (rule lookup_pub_pid)
  have nx: "\<not> list_ex (\<lambda>r. v_publication r = pid p \<and> v_user r = uid u) (views_tbl d)"
    using assms(3) k by (auto simp: ledger_row_def find_None_iff list_ex_iff)
  have s: "snd (PublicationDetailView_get_object u pk d) = save_views (p\<lparr>views := views p + 1\<rparr>) d"
    using assms(1,2) nx by (simp add: PublicationDetailView_get_object_def Let_def)
  show ?thesis
    unfolding s using assms(1,3) k by (simp add: lookup_save_views ledger_row_save_views)
qed

text \<open>
  Without a ledger row for the pair, every one of \<open>n\<close> retrievals adds one to
  the counter: retrieval never writes the ledger, so the test of
  \<^verbatim>\<open>get_object\<close> succeeds each time.
\<close>

lemma record_views_without_ledger_row:
  assumes "lookup_pub pk d = Some p" "has_object_permission u p" "ledger_row pk (uid u) d = None"
  shows "lookup_pub pk (record_views n u pk d) = Some (p\<lparr>views := views p + int n\<rparr>)"
  using assms
proof (induction n arbitrary: d p)
  case 0
  then show ?case by simp
next
  case (Suc n)
  let ?d1 = "snd (PublicationDetailView_get_object u pk d)"
  have a: "lookup_pub pk ?d1 = Some (p\<lparr>views := views p + 1\<rparr>)" "ledger_row pk (uid u) ?d1 = None"
    using get_object_counts[OF Suc.prems] by auto
  have b: "has_object_permission u (p\<lparr>views := views p + 1\<rparr>)"
    using Suc.prems(2) by (simp add: has_object_permission_def)
  show ?case
    using Suc.IH[OF a(1) b a(2)] by (simp add: add.assoc add.commute)
qed

text \<open>
  C1. The second user retrieves the approved publication twice, on a database
  with an empty ledger: the counter goes from 0 to 2, where "once per user"
  asks for 1.
\<close>

theorem views_counted_on_every_access:
  "lookup_pub 1 db0 = Some paper
   \<and> views paper = 0
   \<and> lookup_pub 1 (record_views (Suc (Suc 0)) bob 1 db0) = Some (paper\<lparr>views := 2\<rparr>)"
proof -
  have a: "lookup_pub 1 db0 = Some paper" by (simp add: lookup_pub_def db0_def paper_def)
  have b: "has_object_permission bob paper"
    by (simp add: has_object_permission_def bob_def paper_def)
  have c: "ledger_row 1 (uid bob) db0 = None" by (simp add: ledger_row_def db0_def)
  show ?thesis
    using a record_views_without_ledger_row[OF a b c, of "Suc (Suc 0)"]
    by (simp add: paper_def)
qed

section \<open>Who sees which publication\<close>

lemma keyword_queries_status:
  "keyword_queries ks (p\<lparr>status := s\<rparr>) = keyword_queries ks p"
  by (simp add: keyword_queries_def)

lemma keyword_filter_status:
  "keyword_filter kw (map (\<lambda>p. p\<lparr>status := f p\<rparr>) qs)
     = map (\<lambda>p. p\<lparr>status := f p\<rparr>) (keyword_filter kw qs)"
  by (simp add: keyword_filter_def filter_map comp_def keyword_queries_status split: option.splits)

text \<open>
  C8. For a caller whose role is not editor the listing holds exactly the
  caller's own publications and the approved ones (among those that match
  the keyword search, which is all of them when no keywords are given), so
  it holds no pending or rejected publication of another user. For an editor
  the listing is every publication that matches the keyword search, and that
  search does not look at the status.
\<close>

theorem listing_visibility:
  "(role u \<noteq> ''editor'' \<longrightarrow>
      set (PublicationListCreateView_get_queryset u kw d)
        = {p \<in> set (keyword_filter kw (publications d)). author p = uid u}
          \<union> {p \<in> set (keyword_filter kw (publications d)). status p = ''approved''}
    \<and> (\<forall>p \<in> set (PublicationListCreateView_get_queryset u kw d).
          author p \<noteq> uid u \<longrightarrow> status p \<noteq> ''pending'' \<and> status p \<noteq> ''rejected'')
    \<and> set (PublicationListCreateView_get_queryset u None d)
        = {p \<in> set (publications d). author p = uid u}
          \<union> {p \<in> set (publications d). status p = ''approved''})
   \<and> (role u = ''editor'' \<longrightarrow>
        PublicationListCreateView_get_queryset u kw d = keyword_filter kw (publications d)
      \<and> PublicationListCreateView_get_queryset u None d = publications d)
   \<and> keyword_filter kw (map (\<lambda>p. p\<lparr>status := f p\<rparr>) (publications d))
        = map (\<lambda>p. p\<lparr>status := f p\<rparr>) (keyword_filter kw (publications d))"
proof -
  have a: "role u \<noteq> ''editor'' \<Longrightarrow>
      set (PublicationListCreateView_get_queryset u kw' d)
        = {p \<in> set (keyword_filter kw' (publications d)). author p = uid u}
          \<union> {p \<in> set (keyword_filter kw' (publications d)). status p = ''approved''}" for kw'
    by (auto simp: PublicationListCreateView_get_queryset_def Let_def)
  have n: "keyword_filter None (publications d) = publications d"
    by (simp add: keyword_filter_def)
  have b: "role u \<noteq> ''editor'' \<Longrightarrow>
      \<forall>p \<in> set (PublicationListCreateView_get_queryset u kw d).
          author p \<noteq> uid u \<longrightarrow> status p \<noteq> ''pending'' \<and> status p \<noteq> ''rejected''"
    by (auto simp: PublicationListCreateView_get_queryset_def Let_def)
  have c: "role u = ''editor'' \<Longrightarrow>
        PublicationListCreateView_get_queryset u kw' d = keyword_filter kw' (publications d)" for kw'
    by (simp add: PublicationListCreateView_get_queryset_def Let_def)
  show ?thesis
    using a[of kw] a[of None] b c[of kw] c[of None] keyword_filter_status[of kw f "publications d"]
    unfolding n by blast
qed

lemma demo_listing_bob:
  "PublicationListCreateView_get_queryset bob None db_three = [paper, bobs_draft]"
proof -
  have a: "author paper \<noteq> uid bob" "status paper = ''approved''"
    by (simp_all add: paper_def bob_def)
  have b: "author bobs_draft = uid bob" by (simp add: bobs_draft_def bob_def)
  have c: "author carols_rejected \<noteq> uid bob" "status carols_rejected \<noteq> ''approved''"
    by (simp_all add: carols_rejected_def bob_def)
  have r: "role bob \<noteq> ''editor''" by (simp add: bob_def)
  have p: "publications db_three = [paper, bobs_draft, carols_rejected]"
    by (simp add: db_three_def)
  show ?thesis
    by (simp add: PublicationListCreateView_get_queryset_def keyword_filter_def p a b c r)
qed

theorem listing_visibility_witness:
  "role bob \<noteq> ''editor''
   \<and> PublicationListCreateView_get_queryset bob None db_three = [paper, bobs_draft]
   \<and> set (PublicationListCreateView_get_queryset bob None db_three)
        = {p \<in> set (publications db_three). author p = uid bob}
          \<union> {p \<in> set (publications db_three). status p = ''approved''}
   \<and> role carol = ''editor''
   \<and> PublicationListCreateView_get_queryset carol None db_three = publications db_three"
proof -
  have rb: "role bob \<noteq> ''editor''" by (simp add: bob_def)
  have rc: "role carol = ''editor''" by (simp add: carol_def)
  have s1: "set (PublicationListCreateView_get_queryset bob None db_three)
        = {p \<in> set (publications db_three). author p = uid bob}
          \<union> {p \<in> set (publications db_three). status p = ''approved''}"
    by (rule listing_visibility [of bob None db_three status, THEN conjunct1, THEN mp, OF rb,
                THEN conjunct2, THEN conjunct2])
  have s2: "PublicationListCreateView_get_queryset carol None db_three = publications db_three"
    by (rule listing_visibility [of carol None db_three status, THEN conjunct2, THEN conjunct1,
                THEN mp, OF rc, THEN conjunct2])
  show ?thesis
    using rb rc s1 s2 demo_listing_bob by (intro conjI)
qed

section \<open>Unread notifications\<close>

lemma mset_insert_newest: "mset (insert_newest n ms) = add_mset n (mset ms)"
  by (induction ms) auto

lemma set_insert_newest: "set (insert_newest n ms) = insert n (set ms)"
  by (induction ms) auto

lemma sorted_insert_newest:
  "sorted_wrt (\<lambda>a b. created_at b \<le> created_at a) ms \<Longrightarrow>
     sorted_wrt (\<lambda>a b. created_at b \<le> created_at a) (insert_newest n ms)"
  by (induction ms) (auto simp: set_insert_newest)

lemma mset_order_by_created_desc: "mset (order_by_created_desc ns) = mset ns"
  unfolding order_by_created_desc_def by (induction ns) (auto simp: mset_insert_newest)

lemma sorted_order_by_created_desc:
  "sorted_wrt (\<lambda>a b. created_at b \<le> created_at a) (order_by_created_desc ns)"
  unfolding order_by_created_desc_def by (induction ns) (auto simp: sorted_insert_newest)

text \<open>
  C9. For an authenticated caller the unread listing is the caller's unread
  notifications, each as often as it is in the table, newest first. The
  queryset method answers an anonymous caller with the empty sequence, but
  the view is declared with \<^verbatim>\<open>permission_classes = [IsAuthenticated]\<close>: an
  anonymous request is turned away before the queryset is asked.
\<close>

theorem unread_listing:
  "NotificationUnreadView_list (Authenticated u) d
     = Inr (NotificationUnreadView_get_queryset (Authenticated u) d)
   \<and> mset (NotificationUnreadView_get_queryset (Authenticated u) d)
       = mset (filter (\<lambda>n. n_user n = uid u \<and> \<not> is_read n) (notifications d))
   \<and> sorted_wrt (\<lambda>a b. created_at b \<le> created_at a)
        (NotificationUnreadView_get_queryset (Authenticated u) d)
   \<and> NotificationUnreadView_get_queryset AnonymousUser d = []
   \<and> NotificationUnreadView_list AnonymousUser d = Inl NotAuthenticated"
  by (simp add: NotificationUnreadView_list_def IsAuthenticated_def
        NotificationUnreadView_get_queryset_def mset_order_by_created_desc
        sorted_order_by_created_desc)

theorem unread_listing_witness:
  "NotificationUnreadView_list (Authenticated alice) db_notes = Inr [note_new, note_old]
   \<and> NotificationUnreadView_list AnonymousUser db_notes = Inl NotAuthenticated"
proof -
  have q: "NotificationUnreadView_get_queryset (Authenticated alice) db_notes = [note_new, note_old]"
    by (simp add: NotificationUnreadView_get_queryset_def db_notes_def order_by_created_desc_def
          alice_def note_old_def note_read_def note_new_def note_other_def)
  show ?thesis
    using unread_listing [of alice db_notes] unread_listing [of alice db_notes]
    unfolding q by simp
qed

text \<open>
  The unread view answers an anonymous caller with the authentication error,
  not with an empty list.
\<close>

theorem anonymous_unread_counterexample:
  "NotificationUnreadView_list AnonymousUser db_notes = Inl NotAuthenticated
   \<and> NotificationUnreadView_list AnonymousUser db_notes \<noteq> Inr []"
  by (simp add: NotificationUnreadView_list_def IsAuthenticated_def)

section \<open>Marking a notification as read\<close>

lemma map_replace_distinct:
  assumes "distinct (map nid xs)" "i \<in> set xs"
  shows "map (\<lambda>r. if nid r = nid i then i\<lparr>is_read := b\<rparr> else r) xs
           = map (\<lambda>r. if nid r = nid i then r\<lparr>is_read := b\<rparr> else r) xs"
proof -
  have "nid r = nid i \<Longrightarrow> r = i" if "r \<in> set xs" for r
    using assms that by (meson distinct_map inj_onD)
  then show ?thesis by (intro map_cong) auto
qed

lemma mark_read_table:
  assumes "distinct (map nid (notifications d))"
  shows "notifications (snd (NotificationMarkReadView_update u pk vd d)) = notifications d
       \<or> (\<exists>b. notifications (snd (NotificationMarkReadView_update u pk vd d))
                = map (\<lambda>r. if nid r = pk then r\<lparr>is_read := b\<rparr> else r) (notifications d))"
proof (cases "find (\<lambda>n. nid n = pk) (NotificationListView_get_queryset u d)")
  case None
  then show ?thesis by (simp add: NotificationMarkReadView_update_def)
next
  case (Some i)
  then have i: "i \<in> set (notifications d)" "nid i = pk"
    by (auto simp: find_Some_iff NotificationListView_get_queryset_def dest: nth_mem)
  have x: "list_ex (\<lambda>r. nid r = pk) (notifications d)"
    using i by (auto simp: list_ex_iff)
  have "notifications (snd (NotificationMarkReadView_update u pk vd d))
          = map (\<lambda>r. if nid r = pk
                       then r\<lparr>is_read := get_default (nd_is_read vd) (is_read i)\<rparr> else r)
              (notifications d)"
    using Some map_replace_distinct[OF assms i(1), of "get_default (nd_is_read vd) (is_read i)"] i(2) x
    by (simp add: NotificationMarkReadView_update_def NotificationSerializer_update_def Let_def
          save_notification_def)
  then show ?thesis by blast
qed

lemma frame_of_is_read_update:
  "map (\<lambda>r. (nid r, n_user r, message r, created_at r, related_publication r))
     (map (\<lambda>r. if nid r = pk then r\<lparr>is_read := b\<rparr> else r) xs)
   = map (\<lambda>r. (nid r, n_user r, message r, created_at r, related_publication r)) xs"
  by (induction xs) auto

lemma others_of_is_read_update:
  "filter (\<lambda>r. nid r \<noteq> pk) (map (\<lambda>r. if nid r = pk then r\<lparr>is_read := b\<rparr> else r) xs)
   = filter (\<lambda>r. nid r \<noteq> pk) xs"
  by (induction xs) auto

text \<open>
  C10. \<^verbatim>\<open>NotificationSerializer.update\<close> returns the instance with at most
  \<^verbatim>\<open>is_read\<close> changed, whatever message the validated data carries. Through the
  mark-read view, on a table with distinct keys, the table after the call is
  the table before it with \<^verbatim>\<open>is_read\<close> set on the row of the requested key:
  every row keeps its key, recipient, message, creation time and publication.
\<close>

theorem mark_read_changes_only_is_read:
  "(let i = fst (NotificationSerializer_update inst vd d) in
      nid i = nid inst \<and> n_user i = n_user inst \<and> message i = message inst
      \<and> created_at i = created_at inst \<and> related_publication i = related_publication inst
      \<and> is_read i = get_default (nd_is_read vd) (is_read inst))
   \<and> (distinct (map nid (notifications d)) \<longrightarrow>
        map (\<lambda>r. (nid r, n_user r, message r, created_at r, related_publication r))
            (notifications (snd (NotificationMarkReadView_update u pk vd d)))
          = map (\<lambda>r. (nid r, n_user r, message r, created_at r, related_publication r))
              (notifications d)
      \<and> filter (\<lambda>r. nid r \<noteq> pk) (notifications (snd (NotificationMarkReadView_update u pk vd d)))
          = filter (\<lambda>r. nid r \<noteq> pk) (notifications d))"
proof -
  have a: "(let i = fst (NotificationSerializer_update inst vd d) in
      nid i = nid inst \<and> n_user i = n_user inst \<and> message i = message inst
      \<and> created_at i = created_at inst \<and> related_publication i = related_publication inst
      \<and> is_read i = get_default (nd_is_read vd) (is_read inst))"
    by (simp add: NotificationSerializer_update_def Let_def)
  have b: "map (\<lambda>r. (nid r, n_user r, message r, created_at r, related_publication r))
            (notifications (snd (NotificationMarkReadView_update u pk vd d)))
          = map (\<lambda>r. (nid r, n_user r, message r, created_at r, related_publication r))
              (notifications d)"
    if "distinct (map nid (notifications d))"
    using mark_read_table[OF that, of u pk vd] by (auto simp: frame_of_is_read_update)
  have c: "filter (\<lambda>r. nid r \<noteq> pk) (notifications (snd (NotificationMarkReadView_update u pk vd d)))
          = filter (\<lambda>r. nid r \<noteq> pk) (notifications d)"
    if "distinct (map nid (notifications d))"
    using mark_read_table[OF that, of u pk vd] by (auto simp: others_of_is_read_update)
  show ?thesis using a b c by blast
qed

theorem mark_read_changes_only_is_read_witness:
  "distinct (map nid (notifications db_notes))
   \<and> notifications (snd (NotificationMarkReadView_update alice 1 read_and_rewrite db_notes))
       = [note_old\<lparr>is_read := True\<rparr>, note_read, note_new, note_other]
   \<and> map (\<lambda>r. (nid r, n_user r, message r, created_at r, related_publication r))
         (notifications (snd (NotificationMarkReadView_update alice 1 read_and_rewrite db_notes)))
       = map (\<lambda>r. (nid r, n_user r, message r, created_at r, related_publication r))
           (notifications db_notes)
   \<and> message (fst (NotificationSerializer_update note_old read_and_rewrite db_notes)) = ''first''"
proof -
  have dd: "distinct (map nid (notifications db_notes))"
    by (simp add: db_notes_def note_old_def note_read_def note_new_def note_other_def)
  have q: "notifications (snd (NotificationMarkReadView_update alice 1 read_and_rewrite db_notes))
       = [note_old\<lparr>is_read := True\<rparr>, note_read, note_new, note_other]"
    by (simp add: NotificationMarkReadView_update_def NotificationListView_get_queryset_def
          NotificationSerializer_update_def save_notification_def get_default_def Let_def
          read_and_rewrite_def db_notes_def alice_def
          note_old_def note_read_def note_new_def note_other_def)
  have m: "message note_old = ''first''" by (simp add: note_old_def)
  note t = mark_read_changes_only_is_read [of note_old read_and_rewrite db_notes alice 1]
  have f: "map (\<lambda>r. (nid r, n_user r, message r, created_at r, related_publication r))
         (notifications (snd (NotificationMarkReadView_update alice 1 read_and_rewrite db_notes)))
       = map (\<lambda>r. (nid r, n_user r, message r, created_at r, related_publication r))
           (notifications db_notes)"
    by (rule t [THEN conjunct2, THEN mp, OF dd, THEN conjunct1])
  have g: "message (fst (NotificationSerializer_update note_old read_and_rewrite db_notes)) = ''first''"
    using t [THEN conjunct1] m by (simp add: Let_def)
  show ?thesis using dd q f g by (intro conjI)
qed

end
